theory Spec2Isabelle
  imports Complex_Main "HOL-Library.Sublist" "HOL-Library.Log_Nat"
begin

section \<open>The data model of practicalwork7.ts\<close>

text \<open>
  The enums of lines 2-32. \<open>Grade\<close> is the only one with explicit numeric values
  (5, 4, 3, 2); \<open>grade_value\<close> is the number that the arithmetic of
  \<open>calculateAverageGrade\<close> reads from a member.
\<close>

datatype StudentStatus = Active | Academic_Leave | Graduated | Expelled

datatype CourseType = Mandatory | Optional | Special

datatype Semester = First | Second

datatype Grade = Excellent | Good | Satisfactory | Unsatisfactory

fun grade_value :: "Grade \<Rightarrow> int" where
  "grade_value Excellent = 5"
| "grade_value Good = 4"
| "grade_value Satisfactory = 3"
| "grade_value Unsatisfactory = 2"

datatype Faculty = Computer_Science | Economics | Law | Engineering

text \<open>
  The interfaces of lines 35-61. A TypeScript \<open>number\<close> that holds an identity, a count
  or a year is a mathematical integer here (the source's doubles agree with it below
  \<open>2 ^ 53\<close>); a \<open>Date\<close> is its time value. Several interfaces use the field names
  \<open>id\<close>, \<open>faculty\<close>, \<open>semester\<close>, \<open>studentId\<close> and \<open>courseId\<close>; the fields are
  prefixed by their interface where they would clash.

  \<open>StudentData\<close> and \<open>CourseData\<close> hold the fields of \<open>Omit<Student, "id">\<close> and
  \<open>Omit<Course, "id">\<close>; \<open>Student\<close> and \<open>Course\<close> extend them by the identity.

  \<open>StudentInput\<close> and \<open>CourseInput\<close> are the objects that \<open>enrollStudent\<close> and
  \<open>addCourse\<close> can receive. The parameter types \<open>Omit<..., "id">\<close> list no \<open>id\<close>, but
  they do not forbid one: a \<open>Student\<close> (for instance the object a former call returned)
  is assignable to \<open>Omit<Student, "id">\<close>. So an input carries the declared fields and
  possibly a numeric \<open>id\<close> of its own, which the spread of lines 78 and 232 copies.
\<close>

type_synonym Date = int

record StudentData =
  fullName :: string
  student_faculty :: Faculty
  year :: int
  status :: StudentStatus
  enrollmentDate :: Date
  groupNumber :: string

record Student = StudentData +
  student_id :: int

record StudentInput = StudentData +
  student_input_id :: "int option"

record CourseData =
  name :: string
  course_type :: CourseType
  credits :: int
  course_semester :: Semester
  course_faculty :: Faculty
  maxStudents :: int

record Course = CourseData +
  course_id :: int

record CourseInput = CourseData +
  course_input_id :: "int option"

record StudentGrade =
  grade_studentId :: int
  grade_courseId :: int
  grade :: Grade
  date :: Date
  grade_semester :: Semester

record Registration =
  studentId :: int
  courseId :: int

text \<open>The private fields of the class (lines 65-70) are the state of the manager.\<close>

record UniversityManagementSystem =
  students :: "Student list"
  courses :: "Course list"
  grades :: "StudentGrade list"
  courseRegistrations :: "Registration list"
  nextStudentId :: int
  nextCourseId :: int

text \<open>The field initialisers: what \<open>new UniversityManagementSystem()\<close> builds.\<close>

definition new_ums :: UniversityManagementSystem where
  "new_ums = \<lparr>students = [], courses = [], grades = [], courseRegistrations = [],
     nextStudentId = 1, nextCourseId = 1\<rparr>"

text \<open>
  Every \<open>throw new Error(...)\<close> of the class, told apart by its message: the message of
  lines 93 and 152 (student not found), of lines 97 and 129 (course not found), of line 103
  (course full), of line 108 (the faculties differ), of line 124 (not registered for the
  course) and of line 157 (the status of an expelled student cannot change).
  \<open>RangeError\<close> is what the engine throws at line 219 when the spread makes a call with
  more arguments than it accepts.
\<close>

datatype error =
  NotFound_student
| NotFound_course
| CapacityExceeded
| FacultyMismatch
| NotRegistered
| IllegalTransition
| RangeError

section \<open>The methods\<close>

text \<open>
  A method takes the manager and returns what it returns (or the error it throws)
  together with the manager as the call leaves it. A throwing branch returns the state
  that the statements before the \<open>throw\<close> have built.

  In \<open>{ id: this.nextStudentId++, ...student }\<close> the counter is read and incremented
  first; the spread comes after \<open>id\<close>, so an \<open>id\<close> of the argument replaces the value
  of the counter in the new object. \<open>addCourse\<close> is written the same way.
\<close>

definition enrollStudent ::
  "UniversityManagementSystem \<Rightarrow> StudentInput \<Rightarrow> Student \<times> UniversityManagementSystem" where
  "enrollStudent s student =
     (let counter = nextStudentId s;
          s1 = s\<lparr>nextStudentId := counter + 1\<rparr>;
          newStudent = \<lparr>fullName = fullName student, student_faculty = student_faculty student,
            year = year student, status = status student,
            enrollmentDate = enrollmentDate student, groupNumber = groupNumber student,
            student_id = (case student_input_id student of None \<Rightarrow> counter | Some i \<Rightarrow> i)\<rparr>;
          s2 = s1\<lparr>students := students s1 @ [newStudent]\<rparr>
      in (newStudent, s2))"

definition addCourse ::
  "UniversityManagementSystem \<Rightarrow> CourseInput \<Rightarrow> Course \<times> UniversityManagementSystem" where
  "addCourse s course =
     (let counter = nextCourseId s;
          s1 = s\<lparr>nextCourseId := counter + 1\<rparr>;
          newCourse = \<lparr>name = name course, course_type = course_type course,
            credits = credits course, course_semester = course_semester course,
            course_faculty = course_faculty course, maxStudents = maxStudents course,
            course_id = (case course_input_id course of None \<Rightarrow> counter | Some i \<Rightarrow> i)\<rparr>;
          s2 = s1\<lparr>courses := courses s1 @ [newCourse]\<rparr>
      in (newCourse, s2))"

definition registerForCourse ::
  "UniversityManagementSystem \<Rightarrow> int \<Rightarrow> int \<Rightarrow> (error + unit) \<times> UniversityManagementSystem" where
  "registerForCourse s sid cid =
     (let student = find (\<lambda>x. student_id x = sid) (students s);
          course = find (\<lambda>c. course_id c = cid) (courses s)
      in case student of
           None \<Rightarrow> (Inl NotFound_student, s)
         | Some st \<Rightarrow>
            (case course of
               None \<Rightarrow> (Inl NotFound_course, s)
             | Some c \<Rightarrow>
                (let registrationsForCourse =
                       filter (\<lambda>reg. courseId reg = cid) (courseRegistrations s)
                 in if int (length registrationsForCourse) \<ge> maxStudents c
                    then (Inl CapacityExceeded, s)
                    else if student_faculty st \<noteq> course_faculty c
                    then (Inl FacultyMismatch, s)
                    else (Inr (), s\<lparr>courseRegistrations :=
                            courseRegistrations s @ [\<lparr>studentId = sid, courseId = cid\<rparr>]\<rparr>))))"

text \<open>\<open>now\<close> is the time value that \<open>new Date()\<close> reads from the clock at line 136.\<close>

definition setGrade ::
  "UniversityManagementSystem \<Rightarrow> Date \<Rightarrow> int \<Rightarrow> int \<Rightarrow> Grade
     \<Rightarrow> (error + unit) \<times> UniversityManagementSystem" where
  "setGrade s now sid cid g =
     (let isRegistered =
            list_ex (\<lambda>reg. studentId reg = sid \<and> courseId reg = cid) (courseRegistrations s)
      in if \<not> isRegistered then (Inl NotRegistered, s)
         else (case find (\<lambda>c. course_id c = cid) (courses s) of
                 None \<Rightarrow> (Inl NotFound_course, s)
               | Some course \<Rightarrow>
                  (let newGrade = \<lparr>grade_studentId = sid, grade_courseId = cid, grade = g,
                         date = now, grade_semester = course_semester course\<rparr>
                   in (Inr (), s\<lparr>grades := grades s @ [newGrade]\<rparr>))))"

text \<open>
  \<open>student.status = newStatus\<close> at line 160 writes to the object that \<open>find\<close> returned,
  which is the first element of the array with that identity: \<open>assign_status\<close> is
  that write on the array of objects.
\<close>

fun assign_status :: "Student list \<Rightarrow> int \<Rightarrow> StudentStatus \<Rightarrow> Student list" where
  "assign_status [] sid newStatus = []"
| "assign_status (x # xs) sid newStatus =
     (if student_id x = sid then x\<lparr>status := newStatus\<rparr> # xs
      else x # assign_status xs sid newStatus)"

definition updateStudentStatus ::
  "UniversityManagementSystem \<Rightarrow> int \<Rightarrow> StudentStatus
     \<Rightarrow> (error + unit) \<times> UniversityManagementSystem" where
  "updateStudentStatus s sid newStatus =
     (case find (\<lambda>x. student_id x = sid) (students s) of
        None \<Rightarrow> (Inl NotFound_student, s)
      | Some student \<Rightarrow>
          if status student = Expelled \<and> newStatus \<noteq> Expelled
          then (Inl IllegalTransition, s)
          else (Inr (), s\<lparr>students := assign_status (students s) sid newStatus\<rparr>))"

definition getStudentsByFaculty :: "UniversityManagementSystem \<Rightarrow> Faculty \<Rightarrow> Student list" where
  "getStudentsByFaculty s fac = filter (\<lambda>x. student_faculty x = fac) (students s)"

definition getStudentGrades :: "UniversityManagementSystem \<Rightarrow> int \<Rightarrow> StudentGrade list" where
  "getStudentGrades s sid = filter (\<lambda>g. grade_studentId g = sid) (grades s)"

definition getAvailableCourses ::
  "UniversityManagementSystem \<Rightarrow> Faculty \<Rightarrow> Semester \<Rightarrow> Course list" where
  "getAvailableCourses s fac sem =
     filter (\<lambda>c. course_faculty c = fac \<and> course_semester c = sem) (courses s)"

subsection \<open>Arithmetic on doubles\<close>

text \<open>
  A TypeScript \<open>number\<close> that is computed is an IEEE 754 double. A finite double is a
  rational number, and \<open>+\<close> and \<open>/\<close> return the double nearest to the exact result,
  ties going to the even significand. \<open>to_double\<close> is that rounding: \<open>binade x\<close> is
  the exponent \<open>e\<close> with \<open>2 ^ e \<le> x < 2 ^ (e + 1)\<close>, doubles in that binade are the
  multiples of \<open>2 ^ (e - 52)\<close>, and below \<open>2 ^ (- 1022)\<close> the spacing stays that of the
  smallest binade. Overflow to infinity (from \<open>2 ^ 1024\<close> on) is not part of the model;
  the sums and quotients of grades are far from it.
\<close>

definition round_half_even :: "rat \<Rightarrow> int" where
  "round_half_even r =
     (let f = \<lfloor>r\<rfloor>; d = r - of_int f
      in if d < 1 / 2 then f else if 1 / 2 < d then f + 1
         else if even f then f else f + 1)"

definition binade :: "rat \<Rightarrow> int" where
  "binade x =
     (let (a, b) = quotient_of x; d = bitlen a - bitlen b
      in if 2 powi d \<le> x then d else d - 1)"

definition to_double :: "rat \<Rightarrow> rat" where
  "to_double x =
     (if x = 0 then 0
      else (let e = max (binade \<bar>x\<bar>) (- 1022); u = 2 powi (e - 52)
            in sgn x * of_int (round_half_even (\<bar>x\<bar> / u)) * u))"

text \<open>
  Line 203 adds the grades one by one, each sum rounded as \<open>+\<close> rounds; line 204
  divides the total by the length of the array, which is a double as it stands (an
  array has fewer than \<open>2 ^ 32\<close> elements).
\<close>

definition calculateAverageGrade :: "UniversityManagementSystem \<Rightarrow> int \<Rightarrow> rat" where
  "calculateAverageGrade s sid =
     (let studentGrades = getStudentGrades s sid
      in if length studentGrades = 0 then 0
         else (let total = foldl (\<lambda>sum g. to_double (sum + of_int (grade_value (grade g))))
                             0 studentGrades
               in to_double (total / of_nat (length studentGrades))))"

text \<open>
  \<open>Math.max(...xs)\<close> is one call with an argument for each element of \<open>xs\<close>.
  The language leaves the number of arguments that a call can take to the engine, which
  throws \<open>RangeError\<close> beyond it; \<open>max_args\<close> is that limit (65536 in JavaScriptCore,
  bound by the stack in V8). Within the limit the result is the greatest argument, and
  \<open>-Infinity\<close> for no argument, which is \<open>None\<close> here and equal to no average.
\<close>

fun greatest :: "rat list \<Rightarrow> rat option" where
  "greatest [] = None"
| "greatest (x # xs) = (case greatest xs of None \<Rightarrow> Some x | Some m \<Rightarrow> Some (max x m))"

definition Math_max :: "nat \<Rightarrow> rat list \<Rightarrow> error + rat option" where
  "Math_max max_args xs = (if max_args < length xs then Inl RangeError else Inr (greatest xs))"

definition getTopStudents ::
  "nat \<Rightarrow> UniversityManagementSystem \<Rightarrow> Faculty \<Rightarrow> error + Student list" where
  "getTopStudents max_args s fac =
     (let studentsInFaculty = getStudentsByFaculty s fac;
          studentAverages =
            map (\<lambda>student. (student, calculateAverageGrade s (student_id student)))
              studentsInFaculty
      in case Math_max max_args (map snd studentAverages) of
           Inl e \<Rightarrow> Inl e
         | Inr topAverage \<Rightarrow>
             Inr (map fst
               (filter (\<lambda>sa. Some (snd sa) = topAverage \<and> snd sa > 0) studentAverages)))"

section \<open>Sequences of calls\<close>

text \<open>
  A call of one of the ten public methods of the class. \<open>SetGrade\<close> carries the reading of the
  clock. \<open>step\<close> is the manager after the call, whether it returned or threw (the
  caller catches the error and goes on); the five queries write nothing, whatever they
  return or throw. \<open>run\<close> makes the calls of a list in order.
\<close>

datatype call =
  EnrollStudent StudentInput
| AddCourse CourseInput
| RegisterForCourse int int
| SetGrade Date int int Grade
| UpdateStudentStatus int StudentStatus
| GetStudentsByFaculty Faculty
| GetStudentGrades int
| GetAvailableCourses Faculty Semester
| CalculateAverageGrade int
| GetTopStudents Faculty

fun step :: "UniversityManagementSystem \<Rightarrow> call \<Rightarrow> UniversityManagementSystem" where
  "step s (EnrollStudent d) = snd (enrollStudent s d)"
| "step s (AddCourse d) = snd (addCourse s d)"
| "step s (RegisterForCourse sid cid) = snd (registerForCourse s sid cid)"
| "step s (SetGrade now sid cid g) = snd (setGrade s now sid cid g)"
| "step s (UpdateStudentStatus sid st) = snd (updateStudentStatus s sid st)"
| "step s (GetStudentsByFaculty fac) = s"
| "step s (GetStudentGrades sid) = s"
| "step s (GetAvailableCourses fac sem) = s"
| "step s (CalculateAverageGrade sid) = s"
| "step s (GetTopStudents fac) = s"

definition run :: "UniversityManagementSystem \<Rightarrow> call list \<Rightarrow> UniversityManagementSystem" where
  "run s cs = foldl step s cs"

section \<open>Vocabulary of the properties\<close>

text \<open>
  \<open>registrationsForCourse\<close> is the local constant of line 101: the registrations that
  count toward the capacity of a course.
\<close>

definition registrationsForCourse :: "UniversityManagementSystem \<Rightarrow> int \<Rightarrow> Registration list" where
  "registrationsForCourse s cid = filter (\<lambda>reg. courseId reg = cid) (courseRegistrations s)"

text \<open>
  Two student records that agree on every field but \<open>status\<close>, and an array of students
  that has kept every element of an earlier one, in place, up to its status.
\<close>

definition same_except_status :: "Student \<Rightarrow> Student \<Rightarrow> bool" where
  "same_except_status a b \<longleftrightarrow>
     student_id b = student_id a \<and> fullName b = fullName a \<and>
     student_faculty b = student_faculty a \<and> year b = year a \<and>
     enrollmentDate b = enrollmentDate a \<and> groupNumber b = groupNumber a"

definition students_kept :: "Student list \<Rightarrow> Student list \<Rightarrow> bool" where
  "students_kept xs ys \<longleftrightarrow>
     length xs \<le> length ys \<and> list_all2 same_except_status xs (take (length xs) ys)"

text \<open>
  A call whose argument has no \<open>id\<close> of its own: every call but an \<open>enrollStudent\<close>
  or \<open>addCourse\<close> with such an argument.
\<close>

definition without_id :: "call \<Rightarrow> bool" where
  "without_id c =
     (case c of
        EnrollStudent d \<Rightarrow> student_input_id d = None
      | AddCourse d \<Rightarrow> course_input_id d = None
      | _ \<Rightarrow> True)"

text \<open>
  The identities in each array are \<open>1, 2, ...\<close> in order, up to the counter.
\<close>

definition identities_in_order :: "UniversityManagementSystem \<Rightarrow> bool" where
  "identities_in_order s \<longleftrightarrow>
     1 \<le> nextStudentId s \<and> 1 \<le> nextCourseId s \<and>
     map student_id (students s) = [1..nextStudentId s - 1] \<and>
     map course_id (courses s) = [1..nextCourseId s - 1]"

text \<open>
  Every registration names a student and a course of the arrays, and every grade has a
  registration of its pair.
\<close>

definition referential_integrity :: "UniversityManagementSystem \<Rightarrow> bool" where
  "referential_integrity s \<longleftrightarrow>
     list_all (\<lambda>r. list_ex (\<lambda>x. student_id x = studentId r) (students s) \<and>
                   list_ex (\<lambda>c. course_id c = courseId r) (courses s))
       (courseRegistrations s) \<and>
     list_all (\<lambda>g. list_ex (\<lambda>r. studentId r = grade_studentId g \<and>
                                 courseId r = grade_courseId g) (courseRegistrations s))
       (grades s)"

section \<open>A small university\<close>

text \<open>
  The course and the student of the driver at the end of the source file (lines 242-259,
  with the names in Latin letters), a second course with room for one student, and three
  more students, none with an \<open>id\<close> of its own. \<open>campus0\<close> is the manager after the
  enrolment, \<open>campus\<close> after a term of registrations and grades, in which student 1
  has the grades 5 and 3 and student 2 the grade 4. In \<open>graded\<close> student 4 has the
  grades 5, 4 and 4 and student 3 the grade 5. \<open>ivan_again\<close> is the object that the
  enrolment of \<open>ivan\<close> returned, passed to \<open>enrollStudent\<close> once more, \<open>twice\<close> the
  manager after these two calls; \<open>crowd\<close> is a faculty of 200000 students.
\<close>

definition programming :: CourseInput where
  "programming = \<lparr>name = ''Programming'', course_type = Mandatory, credits = 5,
     course_semester = First, course_faculty = Computer_Science, maxStudents = 30,
     course_input_id = None\<rparr>"

definition seminar :: CourseInput where
  "seminar = \<lparr>name = ''Seminar'', course_type = Optional, credits = 2,
     course_semester = Second, course_faculty = Computer_Science, maxStudents = 1,
     course_input_id = None\<rparr>"

definition ivan :: StudentInput where
  "ivan = \<lparr>fullName = ''Ivan Ivanov'', student_faculty = Computer_Science, year = 1,
     status = Active, enrollmentDate = 0, groupNumber = ''CS-101'',
     student_input_id = None\<rparr>"

definition petro :: StudentInput where
  "petro = \<lparr>fullName = ''Petro Petrenko'', student_faculty = Computer_Science, year = 1,
     status = Active, enrollmentDate = 0, groupNumber = ''CS-101'',
     student_input_id = None\<rparr>"

definition olena :: StudentInput where
  "olena = \<lparr>fullName = ''Olena Shevchenko'', student_faculty = Economics, year = 2,
     status = Active, enrollmentDate = 0, groupNumber = ''EC-201'',
     student_input_id = None\<rparr>"

definition taras :: StudentInput where
  "taras = \<lparr>fullName = ''Taras Melnyk'', student_faculty = Computer_Science, year = 3,
     status = Academic_Leave, enrollmentDate = 0, groupNumber = ''CS-301'',
     student_input_id = None\<rparr>"

definition enrolment_calls :: "call list" where
  "enrolment_calls = [AddCourse programming, AddCourse seminar,
     EnrollStudent ivan, EnrollStudent petro, EnrollStudent olena, EnrollStudent taras]"

definition term_calls :: "call list" where
  "term_calls = [RegisterForCourse 1 1, RegisterForCourse 2 1, RegisterForCourse 1 2,
     SetGrade 10 1 1 Excellent, SetGrade 11 1 1 Satisfactory, SetGrade 12 2 1 Good,
     UpdateStudentStatus 3 Expelled]"

definition campus0 :: UniversityManagementSystem where
  "campus0 = run new_ums enrolment_calls"

definition campus :: UniversityManagementSystem where
  "campus = run campus0 term_calls"

definition graded :: UniversityManagementSystem where
  "graded = run campus [RegisterForCourse 4 1, SetGrade 20 4 1 Excellent,
     SetGrade 21 4 1 Good, SetGrade 22 4 1 Good,
     AddCourse (programming\<lparr>course_faculty := Economics\<rparr>),
     RegisterForCourse 3 3, SetGrade 23 3 3 Excellent]"

definition ivan_again :: StudentInput where
  "ivan_again = ivan\<lparr>student_input_id := Some 1\<rparr>"

definition twice :: UniversityManagementSystem where
  "twice = run new_ums [EnrollStudent ivan, EnrollStudent ivan_again]"

definition crowd :: UniversityManagementSystem where
  "crowd = run new_ums (replicate 200000 (EnrollStudent ivan))"

section \<open>Lemmas about the methods\<close>

lemma find_None_set: "find P xs = None \<longleftrightarrow> (\<forall>x\<in>set xs. \<not> P x)"
  by (induction xs) auto

lemma find_Some_set: "find P xs = Some x \<Longrightarrow> x \<in> set xs \<and> P x"
  by (induction xs) (auto split: if_splits)

lemma find_append_Some: "find P xs = Some x \<Longrightarrow> find P (xs @ ys) = Some x"
  by (induction xs) auto

subsection \<open>registerForCourse\<close>

lemma register_no_student:
  "find (\<lambda>x. student_id x = sid) (students s) = None \<Longrightarrow>
   registerForCourse s sid cid = (Inl NotFound_student, s)"
  by (simp add: registerForCourse_def)

lemma register_no_course:
  "find (\<lambda>x. student_id x = sid) (students s) = Some st \<Longrightarrow>
   find (\<lambda>c. course_id c = cid) (courses s) = None \<Longrightarrow>
   registerForCourse s sid cid = (Inl NotFound_course, s)"
  by (simp add: registerForCourse_def)

lemma register_found:
  "find (\<lambda>x. student_id x = sid) (students s) = Some st \<Longrightarrow>
   find (\<lambda>c. course_id c = cid) (courses s) = Some c \<Longrightarrow>
   registerForCourse s sid cid =
     (if maxStudents c \<le> int (length (registrationsForCourse s cid)) then (Inl CapacityExceeded, s)
      else if student_faculty st \<noteq> course_faculty c then (Inl FacultyMismatch, s)
      else (Inr (), s\<lparr>courseRegistrations :=
              courseRegistrations s @ [\<lparr>studentId = sid, courseId = cid\<rparr>]\<rparr>))"
  by (simp add: registerForCourse_def registrationsForCourse_def Let_def)

lemma register_fail_state:
  "fst (registerForCourse s sid cid) = Inl e \<Longrightarrow> snd (registerForCourse s sid cid) = s"
  by (auto simp add: registerForCourse_def Let_def split: option.splits if_splits)

lemma register_ok_iff:
  "fst (registerForCourse s sid cid) = Inr () \<longleftrightarrow>
   (\<exists>st c. find (\<lambda>x. student_id x = sid) (students s) = Some st \<and>
      find (\<lambda>c. course_id c = cid) (courses s) = Some c \<and>
      int (length (registrationsForCourse s cid)) < maxStudents c \<and>
      student_faculty st = course_faculty c)"
  by (auto simp add: registerForCourse_def registrationsForCourse_def Let_def split: option.splits if_splits)

lemma register_ok_state:
  "fst (registerForCourse s sid cid) = Inr () \<Longrightarrow>
   snd (registerForCourse s sid cid) =
     s\<lparr>courseRegistrations := courseRegistrations s @ [\<lparr>studentId = sid, courseId = cid\<rparr>]\<rparr>"
  by (auto simp add: registerForCourse_def Let_def split: option.splits if_splits)

lemma run_Nil: "run s [] = s"
  by (simp add: run_def)

lemma run_Cons: "run s (c # cs) = run (step s c) cs"
  by (simp add: run_def)

lemma run_append: "run s (cs @ ds) = run (run s cs) ds"
  by (simp add: run_def)

lemma register_many:
  assumes c: "find (\<lambda>c. course_id c = cid) (courses s) = Some c"
  shows "(\<forall>i\<in>set sids. \<exists>st. find (\<lambda>x. student_id x = i) (students s) = Some st \<and>
            student_faculty st = course_faculty c) \<Longrightarrow>
         int (length (registrationsForCourse s cid)) + int (length sids) \<le> maxStudents c \<Longrightarrow>
         run s (map (\<lambda>i. RegisterForCourse i cid) sids) =
           s\<lparr>courseRegistrations :=
               courseRegistrations s @ map (\<lambda>i. \<lparr>studentId = i, courseId = cid\<rparr>) sids\<rparr>"
  using c
proof (induction sids arbitrary: s)
  case Nil
  then show ?case by (simp add: run_Nil)
next
  case (Cons i sids)
  let ?s1 = "s\<lparr>courseRegistrations :=
                courseRegistrations s @ [\<lparr>studentId = i, courseId = cid\<rparr>]\<rparr>"
  from Cons.prems obtain st where
    st: "find (\<lambda>x. student_id x = i) (students s) = Some st"
        "student_faculty st = course_faculty c"
    by auto
  from Cons.prems have cap: "int (length (registrationsForCourse s cid)) < maxStudents c"
    by simp
  have one: "step s (RegisterForCourse i cid) = ?s1"
    using register_found [OF st(1) Cons.prems(3)] st(2) cap by simp
  have len: "length (registrationsForCourse ?s1 cid) = Suc (length (registrationsForCourse s cid))"
    by (simp add: registrationsForCourse_def)
  have "run ?s1 (map (\<lambda>i. RegisterForCourse i cid) sids) =
          ?s1\<lparr>courseRegistrations :=
               courseRegistrations ?s1 @ map (\<lambda>i. \<lparr>studentId = i, courseId = cid\<rparr>) sids\<rparr>"
  proof (rule Cons.IH)
    show "\<forall>i\<in>set sids. \<exists>st. find (\<lambda>x. student_id x = i) (students ?s1) = Some st \<and>
            student_faculty st = course_faculty c"
      using Cons.prems(1) by simp
    show "int (length (registrationsForCourse ?s1 cid)) + int (length sids) \<le> maxStudents c"
      using Cons.prems(2) len by simp
    show "find (\<lambda>c. course_id c = cid) (courses ?s1) = Some c"
      using Cons.prems(3) by simp
  qed
  moreover have "run s (map (\<lambda>i. RegisterForCourse i cid) (i # sids)) =
      run ?s1 (map (\<lambda>i. RegisterForCourse i cid) sids)"
    by (simp only: list.map run_Cons one)
  ultimately show ?case
    by simp
qed

lemma register_boundary:
  assumes c: "find (\<lambda>c. course_id c = cid) (courses s) = Some c"
    and sids: "\<forall>i\<in>set sids. \<exists>st. find (\<lambda>x. student_id x = i) (students s) = Some st \<and>
            student_faculty st = course_faculty c"
    and empty: "registrationsForCourse s cid = []"
    and full: "int (length sids) = maxStudents c"
    and st: "find (\<lambda>x. student_id x = sid) (students s) = Some st"
  shows "run s (map (\<lambda>i. RegisterForCourse i cid) sids) =
           s\<lparr>courseRegistrations :=
               courseRegistrations s @ map (\<lambda>i. \<lparr>studentId = i, courseId = cid\<rparr>) sids\<rparr>"
    and "registerForCourse (run s (map (\<lambda>i. RegisterForCourse i cid) sids)) sid cid =
           (Inl CapacityExceeded, run s (map (\<lambda>i. RegisterForCourse i cid) sids))"
proof -
  let ?s' = "s\<lparr>courseRegistrations :=
               courseRegistrations s @ map (\<lambda>i. \<lparr>studentId = i, courseId = cid\<rparr>) sids\<rparr>"
  show r: "run s (map (\<lambda>i. RegisterForCourse i cid) sids) = ?s'"
    using register_many [OF c sids] empty full by simp
  have len: "length (registrationsForCourse ?s' cid) = length sids"
    using empty by (simp add: registrationsForCourse_def o_def)
  have "registerForCourse ?s' sid cid = (Inl CapacityExceeded, ?s')"
    using register_found [of sid ?s' st cid c] st c len full by simp
  then show "registerForCourse (run s (map (\<lambda>i. RegisterForCourse i cid) sids)) sid cid =
           (Inl CapacityExceeded, run s (map (\<lambda>i. RegisterForCourse i cid) sids))"
    by (simp only: r)
qed

subsection \<open>setGrade\<close>

lemma setGrade_not_registered:
  "\<not> (\<exists>r\<in>set (courseRegistrations s). studentId r = sid \<and> courseId r = cid) \<Longrightarrow>
   setGrade s now sid cid g = (Inl NotRegistered, s)"
  by (simp add: setGrade_def list_ex_iff)

lemma setGrade_no_course:
  "\<exists>r\<in>set (courseRegistrations s). studentId r = sid \<and> courseId r = cid \<Longrightarrow>
   find (\<lambda>c. course_id c = cid) (courses s) = None \<Longrightarrow>
   setGrade s now sid cid g = (Inl NotFound_course, s)"
  by (simp add: setGrade_def list_ex_iff)

lemma setGrade_ok:
  "\<exists>r\<in>set (courseRegistrations s). studentId r = sid \<and> courseId r = cid \<Longrightarrow>
   find (\<lambda>c. course_id c = cid) (courses s) = Some c \<Longrightarrow>
   setGrade s now sid cid g =
     (Inr (), s\<lparr>grades := grades s @ [\<lparr>grade_studentId = sid, grade_courseId = cid, grade = g,
                         date = now, grade_semester = course_semester c\<rparr>]\<rparr>)"
  by (simp add: setGrade_def list_ex_iff)

lemma setGrade_fail_state:
  "fst (setGrade s now sid cid g) = Inl e \<Longrightarrow> snd (setGrade s now sid cid g) = s"
  by (auto simp add: setGrade_def Let_def split: option.splits if_splits)

lemma setGrade_twice:
  assumes r: "\<exists>r\<in>set (courseRegistrations s). studentId r = sid \<and> courseId r = cid"
    and c: "find (\<lambda>c. course_id c = cid) (courses s) = Some c"
  shows "setGrade (snd (setGrade s now sid cid g)) now' sid cid g' =
     (Inr (), s\<lparr>grades := grades s @
        [\<lparr>grade_studentId = sid, grade_courseId = cid, grade = g,
            date = now, grade_semester = course_semester c\<rparr>,
         \<lparr>grade_studentId = sid, grade_courseId = cid, grade = g',
            date = now', grade_semester = course_semester c\<rparr>]\<rparr>)"
proof -
  let ?s1 = "s\<lparr>grades := grades s @ [\<lparr>grade_studentId = sid, grade_courseId = cid, grade = g,
                         date = now, grade_semester = course_semester c\<rparr>]\<rparr>"
  have "setGrade ?s1 now' sid cid g' =
     (Inr (), ?s1\<lparr>grades := grades ?s1 @ [\<lparr>grade_studentId = sid, grade_courseId = cid, grade = g',
                         date = now', grade_semester = course_semester c\<rparr>]\<rparr>)"
    by (rule setGrade_ok) (use r c in simp_all)
  then show ?thesis
    by (simp add: setGrade_ok [OF r c])
qed

subsection \<open>updateStudentStatus\<close>

lemma update_no_student:
  "find (\<lambda>x. student_id x = sid) (students s) = None \<Longrightarrow>
   updateStudentStatus s sid st = (Inl NotFound_student, s)"
  by (simp add: updateStudentStatus_def)

lemma update_found:
  "find (\<lambda>x. student_id x = sid) (students s) = Some x \<Longrightarrow>
   updateStudentStatus s sid st =
     (if status x = Expelled \<and> st \<noteq> Expelled then (Inl IllegalTransition, s)
      else (Inr (), s\<lparr>students := assign_status (students s) sid st\<rparr>))"
  by (simp add: updateStudentStatus_def)

lemma update_fail_state:
  "fst (updateStudentStatus s sid st) = Inl e \<Longrightarrow> snd (updateStudentStatus s sid st) = s"
  by (auto simp add: updateStudentStatus_def Let_def split: option.splits if_splits)

lemma assign_status_index:
  "find (\<lambda>x. student_id x = sid) xs = Some x \<Longrightarrow>
   \<exists>i<length xs. xs ! i = x \<and> (\<forall>j<i. student_id (xs ! j) \<noteq> sid) \<and>
      assign_status xs sid st = xs[i := x\<lparr>status := st\<rparr>]"
proof (induction xs)
  case Nil
  then show ?case by simp
next
  case (Cons a xs)
  show ?case
  proof (cases "student_id a = sid")
    case True
    with Cons.prems have "a = x" by simp
    with True have "(a # xs) ! 0 = x \<and> (\<forall>j<0. student_id ((a # xs) ! j) \<noteq> sid) \<and>
      assign_status (a # xs) sid st = (a # xs)[0 := x\<lparr>status := st\<rparr>]"
      by simp
    then show ?thesis by blast
  next
    case False
    with Cons.prems have "find (\<lambda>x. student_id x = sid) xs = Some x" by simp
    from Cons.IH [OF this] obtain i where i: "i < length xs" "xs ! i = x"
      "\<forall>j<i. student_id (xs ! j) \<noteq> sid" "assign_status xs sid st = xs[i := x\<lparr>status := st\<rparr>]"
      by blast
    have "\<forall>j<Suc i. student_id ((a # xs) ! j) \<noteq> sid"
      using False i(3) by (auto simp: nth_Cons split: nat.splits)
    with i False have "Suc i < length (a # xs) \<and> (a # xs) ! Suc i = x \<and>
      (\<forall>j<Suc i. student_id ((a # xs) ! j) \<noteq> sid) \<and>
      assign_status (a # xs) sid st = (a # xs)[Suc i := x\<lparr>status := st\<rparr>]"
      by simp
    then show ?thesis by blast
  qed
qed

lemma find_assign_status:
  "find (\<lambda>x. student_id x = i) (assign_status xs j st) =
     (if i = j then map_option (\<lambda>x. x\<lparr>status := st\<rparr>) (find (\<lambda>x. student_id x = i) xs)
      else find (\<lambda>x. student_id x = i) xs)"
  by (induction xs) auto

lemma map_id_assign_status: "map student_id (assign_status xs j st) = map student_id xs"
  by (induction xs) auto

lemma length_assign_status: "length (assign_status xs j st) = length xs"
  by (induction xs) auto

lemma expelled_step:
  assumes "find (\<lambda>x. student_id x = sid) (students s) = Some x" "status x = Expelled"
  shows "\<exists>y. find (\<lambda>x. student_id x = sid) (students (step s c)) = Some y \<and> status y = Expelled"
proof (cases c)
  case (EnrollStudent d)
  then show ?thesis using assms by (simp add: enrollStudent_def Let_def find_append_Some)
next
  case (AddCourse d)
  then show ?thesis using assms by (simp add: addCourse_def Let_def)
next
  case (RegisterForCourse i j)
  then show ?thesis using assms
    by (auto simp add: registerForCourse_def Let_def split: option.splits)
next
  case (SetGrade n i j g)
  then show ?thesis using assms
    by (auto simp add: setGrade_def Let_def split: option.splits)
next
  case (UpdateStudentStatus i st)
  show ?thesis
  proof (cases "find (\<lambda>x. student_id x = i) (students s)")
    case None
    then show ?thesis using assms UpdateStudentStatus by (simp add: update_no_student)
  next
    case (Some z)
    show ?thesis
    proof (cases "i = sid")
      case True
      show ?thesis using assms UpdateStudentStatus True
        by (auto simp add: update_found [OF assms(1)] find_assign_status)
    next
      case False
      then show ?thesis using assms UpdateStudentStatus
        by (auto simp add: update_found [OF Some] find_assign_status)
    qed
  qed
qed (use assms in simp_all)

lemma expelled_run:
  "find (\<lambda>x. student_id x = sid) (students s) = Some x \<Longrightarrow> status x = Expelled \<Longrightarrow>
   \<exists>y. find (\<lambda>x. student_id x = sid) (students (run s cs)) = Some y \<and> status y = Expelled"
proof (induction cs arbitrary: s x)
  case Nil
  then show ?case by (simp add: run_Nil)
next
  case (Cons c cs)
  from expelled_step [OF Cons.prems] obtain y where
    "find (\<lambda>x. student_id x = sid) (students (step s c)) = Some y" "status y = Expelled"
    by blast
  from Cons.IH [OF this] show ?case by (simp add: run_Cons)
qed

subsection \<open>rounding\<close>

lemma round_half_even_of_int: "round_half_even (of_int k) = k"
  by (simp add: round_half_even_def)

lemma round_half_even_near: "\<bar>of_int (round_half_even r) - r\<bar> \<le> 1 / 2"
proof -
  have "of_int \<lfloor>r\<rfloor> \<le> r" "r < of_int \<lfloor>r\<rfloor> + 1"
    by linarith+
  then show ?thesis
    by (auto simp add: round_half_even_def Let_def abs_le_iff)
qed

lemma to_double_near:
  "\<bar>to_double x - x\<bar> \<le> 2 powi (max (binade \<bar>x\<bar>) (- 1022) - 53)"
proof (cases "x = 0")
  case True
  then show ?thesis by (simp add: to_double_def)
next
  case False
  define e where "e = max (binade \<bar>x\<bar>) (- 1022)"
  define u :: rat where "u = 2 powi (e - 52)"
  define m where "m = round_half_even (\<bar>x\<bar> / u)"
  have u: "0 < u" by (simp add: u_def)
  have td: "to_double x = sgn x * of_int m * u"
    using False by (simp add: to_double_def Let_def e_def u_def m_def)
  have "x = sgn x * (\<bar>x\<bar> / u) * u"
    using u by (simp add: sgn_mult_abs)
  then have "to_double x - x = sgn x * (of_int m - \<bar>x\<bar> / u) * u"
    unfolding td by (simp add: algebra_simps)
  then have "\<bar>to_double x - x\<bar> = \<bar>of_int m - \<bar>x\<bar> / u\<bar> * u"
    using False u by (simp add: abs_mult abs_sgn_eq del: abs_divide)
  also have "\<dots> \<le> (1 / 2) * u"
    using round_half_even_near [of "\<bar>x\<bar> / u"] u
    unfolding m_def by (intro mult_right_mono) simp_all
  also have "\<dots> = 2 powi (e - 53)"
    unfolding u_def using power_int_diff [of "2::rat" "e - 52" 1] by simp
  finally show ?thesis unfolding e_def .
qed

lemma binade_bounds:
  assumes "0 < x"
  shows "2 powi (binade x) \<le> x" "x < 2 powi (binade x + 1)"
proof -
  obtain a b where q: "quotient_of x = (a, b)" by (cases "quotient_of x")
  have b: "0 < b" using q by (rule quotient_of_denom_pos)
  have x: "x = of_int a / of_int b" using q by (rule quotient_of_div)
  have a: "0 < a" using assms b unfolding x by (simp add: zero_less_divide_iff)
  define d where "d = bitlen a - bitlen b"
  have la: "1 \<le> bitlen a" and lb: "1 \<le> bitlen b"
    using a b by (simp_all add: bitlen_alt_def)
  have pw: "(2::rat) powi (bitlen a - 1) = 2 ^ nat (bitlen a - 1)"
    "(2::rat) powi (bitlen a) = 2 ^ nat (bitlen a)"
    "(2::rat) powi (bitlen b - 1) = 2 ^ nat (bitlen b - 1)"
    "(2::rat) powi (bitlen b) = 2 ^ nat (bitlen b)"
    using la lb by (simp_all add: power_int_def)
  have "(of_int (2 ^ nat (bitlen a - 1)) :: rat) \<le> of_int a"
    "(of_int a :: rat) < of_int (2 ^ nat (bitlen a))"
    using bitlen_bounds [OF a] by (simp_all only: of_int_le_iff of_int_less_iff)
  then have pa: "(2::rat) powi (bitlen a - 1) \<le> of_int a" "of_int a < (2::rat) powi (bitlen a)"
    by (simp_all add: pw)
  have "(of_int (2 ^ nat (bitlen b - 1)) :: rat) \<le> of_int b"
    "(of_int b :: rat) < of_int (2 ^ nat (bitlen b))"
    using bitlen_bounds [OF b] by (simp_all only: of_int_le_iff of_int_less_iff)
  then have pb: "(2::rat) powi (bitlen b - 1) \<le> of_int b" "of_int b < (2::rat) powi (bitlen b)"
    by (simp_all add: pw)
  have lo: "2 powi (d - 1) < x"
  proof -
    have "(2::rat) powi (d - 1) * of_int b < 2 powi (d - 1) * 2 powi (bitlen b)"
      using pb(2) by (intro mult_strict_left_mono) simp_all
    also have "\<dots> = 2 powi (bitlen a - 1)"
      by (simp add: d_def flip: power_int_add)
    also have "\<dots> \<le> of_int a" by (rule pa(1))
    finally show ?thesis
      using b unfolding x by (simp add: pos_less_divide_eq)
  qed
  have hi: "x < 2 powi (d + 1)"
  proof -
    have "of_int a < (2::rat) powi (bitlen a)" by (rule pa(2))
    also have "\<dots> = 2 powi (d + 1) * 2 powi (bitlen b - 1)"
      by (simp add: d_def flip: power_int_add)
    also have "\<dots> \<le> 2 powi (d + 1) * of_int b"
      using pb(1) by (intro mult_left_mono) simp_all
    finally show ?thesis
      using b unfolding x by (simp add: pos_divide_less_eq)
  qed
  have bin: "binade x = (if 2 powi d \<le> x then d else d - 1)"
    by (simp add: binade_def q d_def Let_def)
  show "2 powi (binade x) \<le> x"
    using lo by (simp add: bin)
  show "x < 2 powi (binade x + 1)"
    using hi by (auto simp add: bin not_le)
qed

lemma binade_less:
  assumes "0 < x" "x < 2 powi k"
  shows "binade x < k"
proof (rule ccontr)
  assume "\<not> binade x < k"
  then have "k \<le> binade x" by simp
  then have "(2::rat) powi k \<le> 2 powi (binade x)"
    by (intro power_int_increasing) simp_all
  also have "\<dots> \<le> x" using assms(1) by (rule binade_bounds)
  finally show False using assms(2) by simp
qed

lemma to_double_of_int:
  assumes "0 \<le> n" "n < 2 ^ 53"
  shows "to_double (of_int n) = of_int n"
proof (cases "n = 0")
  case True
  then show ?thesis by (simp add: to_double_def)
next
  case False
  with assms have n: "0 < n" by simp
  define e where "e = max (binade \<bar>of_int n\<bar>) (- 1022)"
  have "(of_int n :: rat) < of_int (2 ^ 53)"
    using assms(2) by (simp only: of_int_less_iff)
  then have "(of_int n :: rat) < 2 powi 53"
    by simp
  then have "binade (of_int n) < 53"
    using n by (intro binade_less) simp_all
  then have e: "e \<le> 52" using n by (simp add: e_def)
  define k where "k = nat (52 - e)"
  have u: "(2::rat) powi (e - 52) = 1 / 2 ^ k"
    using e by (simp add: power_int_def k_def field_simps)
  have "\<bar>of_int n :: rat\<bar> / 2 powi (e - 52) = of_int (n * 2 ^ k)"
    using n by (simp add: u)
  then have r: "round_half_even (\<bar>of_int n :: rat\<bar> / 2 powi (e - 52)) = n * 2 ^ k"
    by (simp only: round_half_even_of_int)
  have "to_double (of_int n) =
      sgn (of_int n) * of_int (round_half_even (\<bar>of_int n :: rat\<bar> / 2 powi (e - 52))) *
        2 powi (e - 52)"
    using n by (simp add: to_double_def Let_def e_def)
  also have "\<dots> = sgn (of_int n) * of_int (n * 2 ^ k) * 2 powi (e - 52)"
    by (simp only: r)
  also have "\<dots> = sgn (of_int n) * of_int (n * 2 ^ k) * (1 / 2 ^ k)"
    by (simp only: u)
  also have "\<dots> = of_int n"
    using n by simp
  finally show ?thesis .
qed

lemma to_double_dyadic:
  assumes k: "0 < k" "k < 2 ^ 53" and lo: "1 \<le> (of_int k :: rat) / 2 ^ j"
  shows "to_double (of_int k / 2 ^ j) = of_int k / 2 ^ j"
proof -
  define x :: rat where "x = of_int k / 2 ^ j"
  have x: "0 < x" using k(1) by (simp add: x_def)
  have ax: "\<bar>x\<bar> = x" "sgn x = 1" "(x = 0) = False" using x by simp_all
  define e where "e = max (binade x) (- 1022)"
  have "(of_int k :: rat) < of_int (2 ^ 53)"
    using k(2) by (simp only: of_int_less_iff)
  then have "(of_int k :: rat) < 2 ^ 53" by simp
  then have "x < 2 ^ 53 / 2 ^ j"
    unfolding x_def by (intro divide_strict_right_mono) simp_all
  also have "\<dots> = 2 powi (53 - int j)"
    by (simp add: power_int_diff)
  finally have up: "binade x < 53 - int j"
    using x by (intro binade_less)
  have "0 \<le> binade x"
  proof (rule ccontr)
    assume "\<not> 0 \<le> binade x"
    then have "binade x + 1 \<le> 0" by simp
    then have "(2::rat) powi (binade x + 1) \<le> 2 powi 0"
      by (intro power_int_increasing) simp_all
    then have "(2::rat) powi (binade x + 1) \<le> 1"
      by simp
    with binade_bounds(2) [OF x] lo show False unfolding x_def by linarith
  qed
  with up have e: "e \<le> 52 - int j"
    by (simp add: e_def)
  define i where "i = nat (52 - int j - e)"
  have "e - 52 = - int (j + i)"
    using e by (simp add: i_def)
  then have "(2::rat) powi (e - 52) = 2 powi (- int (j + i))"
    by (simp only:)
  also have "\<dots> = inverse (2 ^ (j + i))"
    by (simp only: power_int_minus power_int_of_nat)
  also have "\<dots> = 1 / (2 ^ j * 2 ^ i)"
    by (simp add: power_add inverse_eq_divide)
  finally have u: "(2::rat) powi (e - 52) = 1 / (2 ^ j * 2 ^ i)" .
  have "x / 2 powi (e - 52) = of_int (k * 2 ^ i)"
    by (simp add: u x_def)
  then have r: "round_half_even (x / 2 powi (e - 52)) = k * 2 ^ i"
    by (simp only: round_half_even_of_int)
  have "to_double x = of_int (round_half_even (x / 2 powi (e - 52))) * 2 powi (e - 52)"
    by (simp only: to_double_def Let_def ax if_False e_def mult_1)
  also have "\<dots> = of_int (k * 2 ^ i) * 2 powi (e - 52)"
    by (simp only: r)
  also have "\<dots> = of_int (k * 2 ^ i) * (1 / (2 ^ j * 2 ^ i))"
    by (simp only: u)
  also have "\<dots> = x"
    by (simp add: x_def)
  finally show ?thesis unfolding x_def .
qed

subsection \<open>averages\<close>

lemma grade_value_cases:
  "grade_value g =
     (case g of Excellent \<Rightarrow> 5 | Good \<Rightarrow> 4 | Satisfactory \<Rightarrow> 3 | Unsatisfactory \<Rightarrow> 2)"
  by (cases g) simp_all

lemma grade_value_bounds: "2 \<le> grade_value g \<and> grade_value g \<le> 5"
  by (cases g) simp_all

lemma sum_grade_bounds:
  "2 * int (length gs) \<le> sum_list (map (\<lambda>g. grade_value (grade g)) gs) \<and>
   sum_list (map (\<lambda>g. grade_value (grade g)) gs) \<le> 5 * int (length gs)"
proof (induction gs)
  case Nil
  then show ?case by simp
next
  case (Cons g gs)
  then show ?case using grade_value_bounds [of "grade g"] by simp
qed

lemma foldl_double_sum:
  "0 \<le> a \<Longrightarrow> a + 5 * int (length gs) < 2 ^ 53 \<Longrightarrow>
   foldl (\<lambda>sum g. to_double (sum + of_int (grade_value (grade g)))) (of_int a) gs =
     of_int (a + sum_list (map (\<lambda>g. grade_value (grade g)) gs))"
proof (induction gs arbitrary: a)
  case Nil
  then show ?case by simp
next
  case (Cons g gs)
  let ?v = "grade_value (grade g)"
  have v: "2 \<le> ?v" "?v \<le> 5" using grade_value_bounds [of "grade g"] by simp_all
  have "to_double (of_int a + of_int ?v) = to_double (of_int (a + ?v))"
    by simp
  also have "\<dots> = of_int (a + ?v)"
    using Cons.prems v by (intro to_double_of_int) simp_all
  finally have one: "to_double (of_int a + of_int ?v) = of_int (a + ?v)" .
  have "foldl (\<lambda>sum g. to_double (sum + of_int (grade_value (grade g)))) (of_int (a + ?v)) gs =
     of_int (a + ?v + sum_list (map (\<lambda>g. grade_value (grade g)) gs))"
    using Cons.prems v by (intro Cons.IH) simp_all
  then show ?case
    by (simp add: one add.assoc)
qed

lemma average_no_grades: "getStudentGrades s sid = [] \<Longrightarrow> calculateAverageGrade s sid = 0"
  by (simp add: calculateAverageGrade_def)

lemma average_eq:
  assumes "getStudentGrades s sid \<noteq> []" "length (getStudentGrades s sid) < 2 ^ 32"
  shows "calculateAverageGrade s sid =
     to_double (of_int (sum_list (map (\<lambda>g. grade_value (grade g)) (getStudentGrades s sid))) /
                of_nat (length (getStudentGrades s sid)))"
proof -
  let ?gs = "getStudentGrades s sid"
  have "5 * int (length ?gs) < 5 * 2 ^ 32"
    using assms(2) by simp
  then have "0 + 5 * int (length ?gs) < 2 ^ 53"
    by simp
  then have "foldl (\<lambda>sum g. to_double (sum + of_int (grade_value (grade g)))) (of_int 0) ?gs =
     of_int (0 + sum_list (map (\<lambda>g. grade_value (grade g)) ?gs))"
    by (intro foldl_double_sum) simp
  then show ?thesis
    using assms(1) by (simp add: calculateAverageGrade_def Let_def)
qed

lemma mean_bounds:
  assumes "gs \<noteq> []"
  shows "2 \<le> (of_int (sum_list (map (\<lambda>g. grade_value (grade g)) gs)) :: rat) / of_nat (length gs)"
    and "(of_int (sum_list (map (\<lambda>g. grade_value (grade g)) gs)) :: rat) / of_nat (length gs) \<le> 5"
proof -
  let ?t = "sum_list (map (\<lambda>g. grade_value (grade g)) gs)"
  have n: "(0::rat) < of_nat (length gs)" using assms by simp
  have "(of_int (2 * int (length gs)) :: rat) \<le> of_int ?t"
    "(of_int ?t :: rat) \<le> of_int (5 * int (length gs))"
    using sum_grade_bounds [of gs] by (simp_all only: of_int_le_iff)
  then have "2 * of_nat (length gs) \<le> (of_int ?t :: rat)"
    "(of_int ?t :: rat) \<le> 5 * of_nat (length gs)"
    by simp_all
  then show "2 \<le> (of_int ?t :: rat) / of_nat (length gs)"
    "(of_int ?t :: rat) / of_nat (length gs) \<le> 5"
    using n by (simp_all add: pos_le_divide_eq pos_divide_le_eq)
qed

lemma to_double_near_grade:
  assumes "2 \<le> x" "x \<le> 5"
  shows "\<bar>to_double x - x\<bar> \<le> 1 / 2 ^ 51"
proof -
  have "x < 2 powi 3" using assms by simp
  then have "binade \<bar>x\<bar> < 3" using assms by (intro binade_less) simp_all
  then have "max (binade \<bar>x\<bar>) (- 1022) - 53 \<le> - 51" by simp
  then have "(2::rat) powi (max (binade \<bar>x\<bar>) (- 1022) - 53) \<le> 2 powi (- 51)"
    by (intro power_int_increasing) simp_all
  also have "\<dots> = 1 / 2 ^ 51"
    by (simp add: power_int_def field_simps)
  finally show ?thesis
    using to_double_near [of x] by simp
qed

lemma average_near:
  assumes "getStudentGrades s sid \<noteq> []" "length (getStudentGrades s sid) < 2 ^ 32"
  shows "\<bar>calculateAverageGrade s sid -
      of_int (sum_list (map (\<lambda>g. grade_value (grade g)) (getStudentGrades s sid))) /
      of_nat (length (getStudentGrades s sid))\<bar> \<le> 1 / 2 ^ 51"
  unfolding average_eq [OF assms]
  by (intro to_double_near_grade mean_bounds assms(1))

lemma average_exact:
  assumes "getStudentGrades s sid \<noteq> []" "length (getStudentGrades s sid) < 2 ^ 32"
    and d: "int (length (getStudentGrades s sid)) dvd
      sum_list (map (\<lambda>g. grade_value (grade g)) (getStudentGrades s sid))"
  shows "calculateAverageGrade s sid =
      of_int (sum_list (map (\<lambda>g. grade_value (grade g)) (getStudentGrades s sid))) /
      of_nat (length (getStudentGrades s sid))"
proof -
  let ?gs = "getStudentGrades s sid"
  let ?t = "sum_list (map (\<lambda>g. grade_value (grade g)) ?gs)"
  from d obtain k where k: "?t = int (length ?gs) * k" by (auto simp: dvd_def)
  have n: "0 < int (length ?gs)" using assms(1) by simp
  have m: "(of_int ?t :: rat) / of_nat (length ?gs) = of_int k"
    using n by (simp add: k)
  have "2 \<le> (of_int k :: rat)" "(of_int k :: rat) \<le> 5"
    using mean_bounds [OF assms(1)] unfolding m by simp_all
  then have "0 \<le> k" "k < 2 ^ 53" by simp_all
  then have "to_double (of_int k) = of_int k" by (rule to_double_of_int)
  then show ?thesis
    unfolding average_eq [OF assms(1,2)] m .
qed

lemma average_dyadic:
  assumes "getStudentGrades s sid \<noteq> []" "length (getStudentGrades s sid) < 2 ^ 32"
    and m: "of_int (sum_list (map (\<lambda>g. grade_value (grade g)) (getStudentGrades s sid))) /
      of_nat (length (getStudentGrades s sid)) = (of_int k :: rat) / 2 ^ j"
    and k: "k < 2 ^ 53"
  shows "calculateAverageGrade s sid = of_int k / 2 ^ j"
proof -
  have b: "2 \<le> (of_int k :: rat) / 2 ^ j"
    using mean_bounds(1) [OF assms(1)] unfolding m .
  then have "0 < (of_int k :: rat) / 2 ^ j" by simp
  then have "0 < k" by (simp add: zero_less_divide_iff)
  moreover have "1 \<le> (of_int k :: rat) / 2 ^ j" using b by linarith
  ultimately have "to_double (of_int k / 2 ^ j) = of_int k / 2 ^ j"
    using k by (intro to_double_dyadic)
  then show ?thesis
    unfolding average_eq [OF assms(1,2)] m .
qed

lemma average_5_3:
  assumes "map grade (getStudentGrades s sid) = [Excellent, Satisfactory]"
  shows "calculateAverageGrade s sid = 4"
proof -
  from assms obtain g1 g2 where gs: "getStudentGrades s sid = [g1, g2]"
    "grade g1 = Excellent" "grade g2 = Satisfactory"
    by auto
  have "calculateAverageGrade s sid = of_int (5 + 3) / of_nat 2"
    using average_exact [of s sid] by (simp add: gs)
  then show ?thesis by simp
qed

lemma average_5:
  assumes "map grade (getStudentGrades s sid) = [Excellent]"
  shows "calculateAverageGrade s sid = 5"
proof -
  from assms obtain g1 where gs: "getStudentGrades s sid = [g1]" "grade g1 = Excellent"
    by auto
  have "calculateAverageGrade s sid = of_int 5 / of_nat 1"
    using average_exact [of s sid] by (simp add: gs)
  then show ?thesis by simp
qed

subsection \<open>top students\<close>

lemma greatest_eq: "greatest xs = (if xs = [] then None else Some (Max (set xs)))"
proof (induction xs)
  case Nil
  then show ?case by simp
next
  case (Cons x xs)
  show ?case
  proof (cases "xs = []")
    case True
    then show ?thesis by simp
  next
    case False
    then have "Max (set (x # xs)) = max x (Max (set xs))"
      by simp
    with Cons False show ?thesis by simp
  qed
qed

lemma map_fst_filter_snd:
  "map fst (filter (\<lambda>sa. Q (snd sa)) (map (\<lambda>x. (x, f x)) xs)) = filter (\<lambda>x. Q (f x)) xs"
  by (induction xs) simp_all

lemma getTopStudents_beyond:
  "max_args < length (getStudentsByFaculty s fac) \<Longrightarrow>
   getTopStudents max_args s fac = Inl RangeError"
  by (simp add: getTopStudents_def Math_max_def Let_def)

lemma getTopStudents_filter:
  assumes "length (getStudentsByFaculty s fac) \<le> max_args"
  shows "getTopStudents max_args s fac =
     Inr (filter (\<lambda>x. Some (calculateAverageGrade s (student_id x)) =
                    greatest (map (\<lambda>y. calculateAverageGrade s (student_id y))
                       (getStudentsByFaculty s fac)) \<and>
                 0 < calculateAverageGrade s (student_id x))
       (getStudentsByFaculty s fac))"
proof -
  let ?F = "getStudentsByFaculty s fac"
  let ?avg = "\<lambda>x. calculateAverageGrade s (student_id x)"
  let ?top = "greatest (map ?avg ?F)"
  have "getTopStudents max_args s fac =
     Inr (map fst (filter (\<lambda>sa. Some (snd sa) = ?top \<and> 0 < snd sa)
        (map (\<lambda>x. (x, ?avg x)) ?F)))"
    using assms by (simp add: getTopStudents_def Math_max_def Let_def o_def)
  also have "map fst (filter (\<lambda>sa. Some (snd sa) = ?top \<and> 0 < snd sa)
        (map (\<lambda>x. (x, ?avg x)) ?F)) = filter (\<lambda>x. Some (?avg x) = ?top \<and> 0 < ?avg x) ?F"
    by (rule map_fst_filter_snd [where Q = "\<lambda>a. Some a = ?top \<and> 0 < a"])
  finally show ?thesis .
qed

lemma getTopStudents_Max:
  assumes "length (getStudentsByFaculty s fac) \<le> max_args"
  shows "getTopStudents max_args s fac =
     Inr (filter (\<lambda>x. calculateAverageGrade s (student_id x) =
                    Max ((\<lambda>y. calculateAverageGrade s (student_id y)) `
                       set (getStudentsByFaculty s fac)) \<and>
                 0 < calculateAverageGrade s (student_id x))
       (getStudentsByFaculty s fac))"
proof -
  have "filter (\<lambda>x. Some (calculateAverageGrade s (student_id x)) =
                    greatest (map (\<lambda>y. calculateAverageGrade s (student_id y))
                       (getStudentsByFaculty s fac)) \<and>
                 0 < calculateAverageGrade s (student_id x))
       (getStudentsByFaculty s fac) =
     filter (\<lambda>x. calculateAverageGrade s (student_id x) =
                    Max ((\<lambda>y. calculateAverageGrade s (student_id y)) `
                       set (getStudentsByFaculty s fac)) \<and>
                 0 < calculateAverageGrade s (student_id x))
       (getStudentsByFaculty s fac)"
    by (rule filter_cong) (auto simp add: greatest_eq)
  then show ?thesis
    by (simp add: getTopStudents_filter [OF assms])
qed

lemma Max_image_iff:
  "finite A \<Longrightarrow> x \<in> A \<Longrightarrow> (f x = Max (f ` A)) \<longleftrightarrow> (\<forall>y\<in>A. f y \<le> (f x :: rat))"
  by (auto intro: Max_eqI [symmetric])

lemma getTopStudents_set:
  assumes "getTopStudents max_args s fac = Inr xs"
  shows "x \<in> set xs \<longleftrightarrow>
     x \<in> set (students s) \<and> student_faculty x = fac \<and>
     (\<forall>y\<in>set (students s). student_faculty y = fac \<longrightarrow>
        calculateAverageGrade s (student_id y) \<le> calculateAverageGrade s (student_id x)) \<and>
     0 < calculateAverageGrade s (student_id x)"
proof -
  let ?F = "getStudentsByFaculty s fac"
  have F: "set ?F = {x \<in> set (students s). student_faculty x = fac}"
    by (simp add: getStudentsByFaculty_def)
  have "length ?F \<le> max_args"
    using assms getTopStudents_beyond [of max_args s fac] by (cases "length ?F \<le> max_args") auto
  from getTopStudents_Max [OF this] assms
  have xs: "xs = filter (\<lambda>x. calculateAverageGrade s (student_id x) =
                    Max ((\<lambda>y. calculateAverageGrade s (student_id y)) ` set ?F) \<and>
                 0 < calculateAverageGrade s (student_id x)) ?F"
    by simp
  have "x \<in> set xs \<longleftrightarrow>
     x \<in> set ?F \<and> calculateAverageGrade s (student_id x) =
         Max ((\<lambda>y. calculateAverageGrade s (student_id y)) ` set ?F) \<and>
       0 < calculateAverageGrade s (student_id x)"
    by (simp add: xs)
  also have "\<dots> \<longleftrightarrow> x \<in> set ?F \<and>
     (\<forall>y\<in>set ?F. calculateAverageGrade s (student_id y) \<le> calculateAverageGrade s (student_id x)) \<and>
     0 < calculateAverageGrade s (student_id x)"
    using Max_image_iff [of "set ?F" x "\<lambda>y. calculateAverageGrade s (student_id y)"]
    by auto
  finally show ?thesis
    by (auto simp add: F)
qed

lemma getTopStudents_no_grades:
  assumes "length (getStudentsByFaculty s fac) \<le> max_args"
    and "\<forall>y\<in>set (getStudentsByFaculty s fac). getStudentGrades s (student_id y) = []"
  shows "getTopStudents max_args s fac = Inr []"
  using assms(2) unfolding getTopStudents_Max [OF assms(1)]
  by (simp add: average_no_grades)

subsection \<open>what a call leaves alone\<close>

lemma enroll_state:
  "snd (enrollStudent s d) =
     s\<lparr>nextStudentId := nextStudentId s + 1,
       students := students s @ [fst (enrollStudent s d)]\<rparr>"
  by (simp add: enrollStudent_def Let_def)

lemma enroll_result:
  "fst (enrollStudent s d) =
     \<lparr>fullName = fullName d, student_faculty = student_faculty d, year = year d,
      status = status d, enrollmentDate = enrollmentDate d, groupNumber = groupNumber d,
      student_id = (case student_input_id d of None \<Rightarrow> nextStudentId s | Some i \<Rightarrow> i)\<rparr>"
  by (simp add: enrollStudent_def Let_def)

lemma addCourse_state:
  "snd (addCourse s d) =
     s\<lparr>nextCourseId := nextCourseId s + 1,
       courses := courses s @ [fst (addCourse s d)]\<rparr>"
  by (simp add: addCourse_def Let_def)

lemma addCourse_result:
  "fst (addCourse s d) =
     \<lparr>name = name d, course_type = course_type d, credits = credits d,
      course_semester = course_semester d, course_faculty = course_faculty d,
      maxStudents = maxStudents d,
      course_id = (case course_input_id d of None \<Rightarrow> nextCourseId s | Some i \<Rightarrow> i)\<rparr>"
  by (simp add: addCourse_def Let_def)

lemma register_state:
  "snd (registerForCourse s sid cid) = s \<or>
   snd (registerForCourse s sid cid) =
     s\<lparr>courseRegistrations := courseRegistrations s @ [\<lparr>studentId = sid, courseId = cid\<rparr>]\<rparr>"
  by (simp add: registerForCourse_def Let_def split: option.splits)

lemma setGrade_state:
  "snd (setGrade s now sid cid g) = s \<or>
   (\<exists>c. find (\<lambda>c. course_id c = cid) (courses s) = Some c \<and>
      snd (setGrade s now sid cid g) =
       s\<lparr>grades := grades s @ [\<lparr>grade_studentId = sid, grade_courseId = cid, grade = g,
                         date = now, grade_semester = course_semester c\<rparr>]\<rparr>)"
  by (simp add: setGrade_def Let_def split: option.splits)

lemma update_state:
  "snd (updateStudentStatus s sid st) = s \<or>
   snd (updateStudentStatus s sid st) = s\<lparr>students := assign_status (students s) sid st\<rparr>"
  by (simp add: updateStudentStatus_def split: option.splits)

lemma same_except_status_refl: "same_except_status a a"
  by (simp add: same_except_status_def)

lemma same_except_status_trans:
  "same_except_status a b \<Longrightarrow> same_except_status b c \<Longrightarrow> same_except_status a c"
  by (simp add: same_except_status_def)

lemma students_kept_refl: "students_kept xs xs"
  by (simp add: students_kept_def list_all2_refl same_except_status_refl)

lemma students_kept_append: "students_kept xs (xs @ ys)"
  by (simp add: students_kept_def list_all2_refl same_except_status_refl)

lemma students_kept_assign: "students_kept xs (assign_status xs sid st)"
proof -
  have "list_all2 same_except_status xs (assign_status xs sid st)"
    by (induction xs) (simp_all add: list_all2_refl same_except_status_refl same_except_status_def)
  then show ?thesis
    by (simp add: students_kept_def length_assign_status)
qed

lemma students_kept_trans:
  assumes "students_kept xs ys" "students_kept ys zs"
  shows "students_kept xs zs"
proof -
  from assms have len: "length xs \<le> length ys" "length ys \<le> length zs"
    and a: "list_all2 same_except_status xs (take (length xs) ys)"
    and b: "list_all2 same_except_status ys (take (length ys) zs)"
    by (simp_all add: students_kept_def)
  from b have "list_all2 same_except_status (take (length xs) ys)
     (take (length xs) (take (length ys) zs))"
    by (rule list_all2_takeI)
  with len have "list_all2 same_except_status (take (length xs) ys) (take (length xs) zs)"
    by (simp add: min_def)
  with a have "list_all2 same_except_status xs (take (length xs) zs)"
    by (rule list_all2_trans [rotated]) (rule same_except_status_trans)
  with len show ?thesis
    by (simp add: students_kept_def)
qed

lemma step_students: "students_kept (students s) (students (step s c))"
proof (cases c)
  case (EnrollStudent d)
  then show ?thesis by (simp add: enroll_state students_kept_append)
next
  case (AddCourse d)
  then show ?thesis by (simp add: addCourse_state students_kept_refl)
next
  case (RegisterForCourse i j)
  then show ?thesis using register_state [of s i j] by (auto simp add: students_kept_refl)
next
  case (SetGrade n i j g)
  then show ?thesis using setGrade_state [of s n i j g] by (auto simp add: students_kept_refl)
next
  case (UpdateStudentStatus i st)
  then show ?thesis using update_state [of s i st]
    by (auto simp add: students_kept_refl students_kept_assign)
qed (simp_all add: students_kept_refl)

lemma step_students_same:
  "\<forall>i st. c \<noteq> UpdateStudentStatus i st \<Longrightarrow> prefix (students s) (students (step s c))"
proof (cases c)
  case (EnrollStudent d)
  then show ?thesis by (simp add: enroll_state)
next
  case (AddCourse d)
  then show ?thesis by (simp add: addCourse_state)
next
  case (RegisterForCourse i j)
  then show ?thesis using register_state [of s i j] by auto
next
  case (SetGrade n i j g)
  then show ?thesis using setGrade_state [of s n i j g] by auto
qed simp_all

lemma step_courses: "prefix (courses s) (courses (step s c))"
proof (cases c)
  case (EnrollStudent d)
  then show ?thesis by (simp add: enroll_state)
next
  case (AddCourse d)
  then show ?thesis by (simp add: addCourse_state)
next
  case (RegisterForCourse i j)
  then show ?thesis using register_state [of s i j] by auto
next
  case (SetGrade n i j g)
  then show ?thesis using setGrade_state [of s n i j g] by auto
next
  case (UpdateStudentStatus i st)
  then show ?thesis using update_state [of s i st] by auto
qed simp_all

lemma step_grades: "prefix (grades s) (grades (step s c))"
proof (cases c)
  case (EnrollStudent d)
  then show ?thesis by (simp add: enroll_state)
next
  case (AddCourse d)
  then show ?thesis by (simp add: addCourse_state)
next
  case (RegisterForCourse i j)
  then show ?thesis using register_state [of s i j] by auto
next
  case (SetGrade n i j g)
  then show ?thesis using setGrade_state [of s n i j g] by auto
next
  case (UpdateStudentStatus i st)
  then show ?thesis using update_state [of s i st] by auto
qed simp_all

lemma step_registrations: "prefix (courseRegistrations s) (courseRegistrations (step s c))"
proof (cases c)
  case (EnrollStudent d)
  then show ?thesis by (simp add: enroll_state)
next
  case (AddCourse d)
  then show ?thesis by (simp add: addCourse_state)
next
  case (RegisterForCourse i j)
  then show ?thesis using register_state [of s i j] by auto
next
  case (SetGrade n i j g)
  then show ?thesis using setGrade_state [of s n i j g] by auto
next
  case (UpdateStudentStatus i st)
  then show ?thesis using update_state [of s i st] by auto
qed simp_all

lemma run_courses: "prefix (courses s) (courses (run s cs))"
proof (induction cs arbitrary: s)
  case Nil
  then show ?case by (simp add: run_Nil)
next
  case (Cons c cs)
  have "prefix (courses s) (courses (step s c))" by (rule step_courses)
  also have "prefix \<dots> (courses (run (step s c) cs))" by (rule Cons.IH)
  finally show ?case by (simp add: run_Cons)
qed

lemma run_grades: "prefix (grades s) (grades (run s cs))"
proof (induction cs arbitrary: s)
  case Nil
  then show ?case by (simp add: run_Nil)
next
  case (Cons c cs)
  have "prefix (grades s) (grades (step s c))" by (rule step_grades)
  also have "prefix \<dots> (grades (run (step s c) cs))" by (rule Cons.IH)
  finally show ?case by (simp add: run_Cons)
qed

lemma run_registrations: "prefix (courseRegistrations s) (courseRegistrations (run s cs))"
proof (induction cs arbitrary: s)
  case Nil
  then show ?case by (simp add: run_Nil)
next
  case (Cons c cs)
  have "prefix (courseRegistrations s) (courseRegistrations (step s c))"
    by (rule step_registrations)
  also have "prefix \<dots> (courseRegistrations (run (step s c) cs))" by (rule Cons.IH)
  finally show ?case by (simp add: run_Cons)
qed

lemma run_students: "students_kept (students s) (students (run s cs))"
proof (induction cs arbitrary: s)
  case Nil
  then show ?case by (simp add: run_Nil students_kept_refl)
next
  case (Cons c cs)
  have "students_kept (students s) (students (step s c))" by (rule step_students)
  moreover have "students_kept (students (step s c)) (students (run (step s c) cs))"
    by (rule Cons.IH)
  ultimately show ?case by (simp add: run_Cons students_kept_trans)
qed

subsection \<open>counters\<close>

lemma step_nextStudentId:
  "nextStudentId (step s c) =
     (case c of EnrollStudent d \<Rightarrow> nextStudentId s + 1 | _ \<Rightarrow> nextStudentId s)"
proof (cases c)
  case (RegisterForCourse i j)
  then show ?thesis using register_state [of s i j] by auto
next
  case (SetGrade n i j g)
  then show ?thesis using setGrade_state [of s n i j g] by auto
next
  case (UpdateStudentStatus i st)
  then show ?thesis using update_state [of s i st] by auto
qed (simp_all add: enroll_state addCourse_state)

lemma step_nextCourseId:
  "nextCourseId (step s c) =
     (case c of AddCourse d \<Rightarrow> nextCourseId s + 1 | _ \<Rightarrow> nextCourseId s)"
proof (cases c)
  case (RegisterForCourse i j)
  then show ?thesis using register_state [of s i j] by auto
next
  case (SetGrade n i j g)
  then show ?thesis using setGrade_state [of s n i j g] by auto
next
  case (UpdateStudentStatus i st)
  then show ?thesis using update_state [of s i st] by auto
qed (simp_all add: enroll_state addCourse_state)

lemma run_counters:
  "nextStudentId s \<le> nextStudentId (run s cs) \<and> nextCourseId s \<le> nextCourseId (run s cs)"
proof (induction cs arbitrary: s)
  case Nil
  then show ?case by (simp add: run_Nil)
next
  case (Cons c cs)
  have "nextStudentId s \<le> nextStudentId (step s c)"
    by (simp add: step_nextStudentId split: call.splits)
  moreover have "nextCourseId s \<le> nextCourseId (step s c)"
    by (simp add: step_nextCourseId split: call.splits)
  ultimately show ?case using Cons.IH [of "step s c"]
    by (simp add: run_Cons)
qed

lemma upto_snoc: "1 \<le> n \<Longrightarrow> [1..n - 1] @ [n] = [1..n + 1 - 1]" for n :: int
  using upto_rec2 [of 1 n] by simp

lemma step_identities:
  assumes "identities_in_order s" "without_id c"
  shows "identities_in_order (step s c)"
proof (cases c)
  case (EnrollStudent d)
  then show ?thesis using assms
    by (simp add: identities_in_order_def enroll_state enroll_result upto_snoc without_id_def)
next
  case (AddCourse d)
  then show ?thesis using assms
    by (simp add: identities_in_order_def addCourse_state addCourse_result upto_snoc
        without_id_def)
next
  case (RegisterForCourse i j)
  then show ?thesis using assms(1) register_state [of s i j]
    by (auto simp add: identities_in_order_def)
next
  case (SetGrade n i j g)
  then show ?thesis using assms(1) setGrade_state [of s n i j g]
    by (auto simp add: identities_in_order_def)
next
  case (UpdateStudentStatus i st)
  then show ?thesis using assms(1) update_state [of s i st]
    by (auto simp add: identities_in_order_def map_id_assign_status)
qed (use assms(1) in simp_all)

lemma run_identities:
  "identities_in_order s \<Longrightarrow> list_all without_id cs \<Longrightarrow> identities_in_order (run s cs)"
  by (induction cs arbitrary: s) (simp_all add: run_Nil run_Cons step_identities)

lemma new_identities: "identities_in_order new_ums"
  by (simp add: identities_in_order_def new_ums_def)

lemma identities_below:
  assumes "identities_in_order s"
  shows "\<forall>x\<in>set (students s). 1 \<le> student_id x \<and> student_id x < nextStudentId s"
    and "\<forall>c\<in>set (courses s). 1 \<le> course_id c \<and> course_id c < nextCourseId s"
    and "distinct (map student_id (students s))"
    and "distinct (map course_id (courses s))"
proof -
  from assms have m: "map student_id (students s) = [1..nextStudentId s - 1]"
    "map course_id (courses s) = [1..nextCourseId s - 1]"
    by (simp_all add: identities_in_order_def)
  show "\<forall>x\<in>set (students s). 1 \<le> student_id x \<and> student_id x < nextStudentId s"
  proof
    fix x assume "x \<in> set (students s)"
    then have "student_id x \<in> set (map student_id (students s))" by simp
    then show "1 \<le> student_id x \<and> student_id x < nextStudentId s"
      by (simp only: m) simp
  qed
  show "\<forall>c\<in>set (courses s). 1 \<le> course_id c \<and> course_id c < nextCourseId s"
  proof
    fix c assume "c \<in> set (courses s)"
    then have "course_id c \<in> set (map course_id (courses s))" by simp
    then show "1 \<le> course_id c \<and> course_id c < nextCourseId s"
      by (simp only: m) simp
  qed
  show "distinct (map student_id (students s))" by (simp only: m) simp
  show "distinct (map course_id (courses s))" by (simp only: m) simp
qed

subsection \<open>referential integrity\<close>

lemma referential_integrity_iff:
  "referential_integrity s \<longleftrightarrow>
     (\<forall>r\<in>set (courseRegistrations s).
        (\<exists>x\<in>set (students s). student_id x = studentId r) \<and>
        (\<exists>c\<in>set (courses s). course_id c = courseId r)) \<and>
     (\<forall>g\<in>set (grades s). \<exists>r\<in>set (courseRegistrations s).
        studentId r = grade_studentId g \<and> courseId r = grade_courseId g)"
  by (simp add: referential_integrity_def list_all_iff list_ex_iff)

lemma ex_id_assign_status:
  "(\<exists>x\<in>set (assign_status xs j st). student_id x = i) \<longleftrightarrow> (\<exists>x\<in>set xs. student_id x = i)"
proof -
  have "student_id ` set (assign_status xs j st) = student_id ` set xs"
    using map_id_assign_status [of xs j st] by (metis set_map)
  then have "i \<in> student_id ` set (assign_status xs j st) \<longleftrightarrow> i \<in> student_id ` set xs"
    by simp
  then show ?thesis
    by (simp add: image_iff eq_commute)
qed

lemma integrity_enroll:
  "referential_integrity s \<Longrightarrow> referential_integrity (snd (enrollStudent s d))"
  by (simp add: referential_integrity_iff enroll_state)

lemma integrity_addCourse:
  "referential_integrity s \<Longrightarrow> referential_integrity (snd (addCourse s d))"
  by (simp add: referential_integrity_iff addCourse_state)

lemma integrity_register:
  assumes inv: "referential_integrity s"
  shows "referential_integrity (snd (registerForCourse s i j))"
proof (cases "fst (registerForCourse s i j)")
  case (Inl e)
  then show ?thesis using inv by (simp add: register_fail_state)
next
  case (Inr u)
  then have ok: "fst (registerForCourse s i j) = Inr ()" by simp
  then obtain st c where "find (\<lambda>x. student_id x = i) (students s) = Some st"
    "find (\<lambda>c. course_id c = j) (courses s) = Some c"
    by (auto simp add: register_ok_iff)
  then have "\<exists>x\<in>set (students s). student_id x = i" "\<exists>c\<in>set (courses s). course_id c = j"
    by (auto dest!: find_Some_set)
  then show ?thesis using inv
    by (simp add: referential_integrity_iff register_ok_state [OF ok])
qed

lemma integrity_setGrade:
  assumes inv: "referential_integrity s"
  shows "referential_integrity (snd (setGrade s n i j g))"
proof (cases "\<exists>r\<in>set (courseRegistrations s). studentId r = i \<and> courseId r = j")
  case False
  then show ?thesis using inv by (simp add: setGrade_not_registered)
next
  case True
  show ?thesis
  proof (cases "find (\<lambda>c. course_id c = j) (courses s)")
    case None
    then show ?thesis using inv True by (simp add: setGrade_no_course)
  next
    case (Some c)
    show ?thesis using inv True
      by (simp add: referential_integrity_iff setGrade_ok [OF True Some])
  qed
qed

lemma integrity_update:
  assumes inv: "referential_integrity s"
  shows "referential_integrity (snd (updateStudentStatus s i st))"
  using update_state [of s i st]
proof
  assume "snd (updateStudentStatus s i st) = s"
  then show ?thesis using inv by simp
next
  assume "snd (updateStudentStatus s i st) = s\<lparr>students := assign_status (students s) i st\<rparr>"
  then show ?thesis using inv
    by (simp add: referential_integrity_iff ex_id_assign_status)
qed

lemma step_integrity: "referential_integrity s \<Longrightarrow> referential_integrity (step s c)"
  by (cases c)
    (simp_all add: integrity_enroll integrity_addCourse integrity_register
       integrity_setGrade integrity_update)

lemma run_integrity: "referential_integrity s \<Longrightarrow> referential_integrity (run s cs)"
  by (induction cs arbitrary: s) (simp_all add: run_Nil run_Cons step_integrity)

lemma new_integrity: "referential_integrity new_ums"
  by (simp add: referential_integrity_def new_ums_def)

text \<open>The manager after the enrolment, written out.\<close>

lemma campus0_state:
  "campus0 = \<lparr>students =
    [\<lparr>fullName = ''Ivan Ivanov'', student_faculty = Computer_Science,
        year = 1, status = Active, enrollmentDate = 0,
        groupNumber = ''CS-101'', student_id = 1\<rparr>,
     \<lparr>fullName = ''Petro Petrenko'', student_faculty = Computer_Science,
        year = 1, status = Active, enrollmentDate = 0,
        groupNumber = ''CS-101'', student_id = 2\<rparr>,
     \<lparr>fullName = ''Olena Shevchenko'', student_faculty = Economics,
        year = 2, status = Active, enrollmentDate = 0,
        groupNumber = ''EC-201'', student_id = 3\<rparr>,
     \<lparr>fullName = ''Taras Melnyk'', student_faculty = Computer_Science,
        year = 3, status = Academic_Leave, enrollmentDate = 0,
        groupNumber = ''CS-301'', student_id = 4\<rparr>],
    courses =
      [\<lparr>name = ''Programming'', course_type = Mandatory, credits = 5,
          course_semester = First, course_faculty = Computer_Science,
          maxStudents = 30, course_id = 1\<rparr>,
       \<lparr>name = ''Seminar'', course_type = Optional, credits = 2,
          course_semester = Second, course_faculty = Computer_Science,
          maxStudents = 1, course_id = 2\<rparr>],
    grades = [], courseRegistrations = [], nextStudentId = 5,
    nextCourseId = 3\<rparr>"
  by code_simp

lemma register_outcomes:
  "fst (registerForCourse s sid cid) \<in>
     {Inr (), Inl NotFound_student, Inl NotFound_course, Inl CapacityExceeded,
      Inl FacultyMismatch}"
  by (simp add: registerForCourse_def Let_def split: option.splits)

subsection \<open>many enrolments\<close>

lemma faculty_after_enrolments:
  "length (getStudentsByFaculty (run s (replicate n (EnrollStudent d))) (student_faculty d)) =
     length (getStudentsByFaculty s (student_faculty d)) + n"
proof (induction n arbitrary: s)
  case 0
  then show ?case by (simp add: run_Nil)
next
  case (Suc n)
  have "length (getStudentsByFaculty (step s (EnrollStudent d)) (student_faculty d)) =
      length (getStudentsByFaculty s (student_faculty d)) + 1"
    by (simp add: getStudentsByFaculty_def enroll_state enroll_result)
  then show ?case
    using Suc.IH [of "step s (EnrollStudent d)"] by (simp add: run_Cons)
qed

section \<open>The claims\<close>

text \<open>
  Claim C1. \<open>registerForCourse\<close> checks in this order. With no student of the
  identity it throws the student-not-found error; with such a student but no course of
  the identity, the course-not-found error. With the student \<open>st\<close> and the course
  \<open>c\<close> that \<open>find\<close> returns: when the number of registrations for the course is
  not below \<open>maxStudents\<close>, the course-full error; otherwise, when the faculties
  differ, the faculty error; otherwise it returns and the registrations are the old
  ones followed by the one new \<open>(studentId, courseId)\<close>. Every error leaves the
  manager as it was. The boundary: from a manager with no registration for the course,
  registering \<open>maxStudents\<close> students of the course's faculty appends all of them, and
  in the manager so reached one more call throws the course-full error.
\<close>

theorem registerForCourse_checks_in_order:
  "((\<forall>x\<in>set (students s). student_id x \<noteq> sid) \<longrightarrow>
      registerForCourse s sid cid = (Inl NotFound_student, s)) \<and>
   ((\<exists>x\<in>set (students s). student_id x = sid) \<and>
    (\<forall>c\<in>set (courses s). course_id c \<noteq> cid) \<longrightarrow>
      registerForCourse s sid cid = (Inl NotFound_course, s)) \<and>
   (find (\<lambda>x. student_id x = sid) (students s) = Some st \<and>
    find (\<lambda>c. course_id c = cid) (courses s) = Some c \<longrightarrow>
      (\<not> int (length (registrationsForCourse s cid)) < maxStudents c \<longrightarrow>
         registerForCourse s sid cid = (Inl CapacityExceeded, s)) \<and>
      (int (length (registrationsForCourse s cid)) < maxStudents c \<and>
       student_faculty st \<noteq> course_faculty c \<longrightarrow>
         registerForCourse s sid cid = (Inl FacultyMismatch, s)) \<and>
      (int (length (registrationsForCourse s cid)) < maxStudents c \<and>
       student_faculty st = course_faculty c \<longrightarrow>
         registerForCourse s sid cid =
           (Inr (), s\<lparr>courseRegistrations :=
              courseRegistrations s @ [\<lparr>studentId = sid, courseId = cid\<rparr>]\<rparr>)) \<and>
      (registrationsForCourse s cid = [] \<and> int (length sids) = maxStudents c \<and>
       (\<forall>i\<in>set sids. \<exists>x. find (\<lambda>x. student_id x = i) (students s) = Some x \<and>
           student_faculty x = course_faculty c) \<longrightarrow>
         run s (map (\<lambda>i. RegisterForCourse i cid) sids) =
           s\<lparr>courseRegistrations :=
               courseRegistrations s @ map (\<lambda>i. \<lparr>studentId = i, courseId = cid\<rparr>) sids\<rparr> \<and>
         registerForCourse (run s (map (\<lambda>i. RegisterForCourse i cid) sids)) sid cid =
           (Inl CapacityExceeded, run s (map (\<lambda>i. RegisterForCourse i cid) sids))))"
proof (intro conjI impI)
  assume "\<forall>x\<in>set (students s). student_id x \<noteq> sid"
  then have "find (\<lambda>x. student_id x = sid) (students s) = None"
    by (simp add: find_None_set)
  then show "registerForCourse s sid cid = (Inl NotFound_student, s)"
    by (rule register_no_student)
next
  assume a: "(\<exists>x\<in>set (students s). student_id x = sid) \<and>
    (\<forall>c\<in>set (courses s). course_id c \<noteq> cid)"
  then have "find (\<lambda>x. student_id x = sid) (students s) \<noteq> None"
    by (simp add: find_None_set)
  then obtain x where x: "find (\<lambda>x. student_id x = sid) (students s) = Some x"
    by blast
  from a have "find (\<lambda>c. course_id c = cid) (courses s) = None"
    by (simp add: find_None_set)
  with x show "registerForCourse s sid cid = (Inl NotFound_course, s)"
    by (rule register_no_course)
next
  assume f: "find (\<lambda>x. student_id x = sid) (students s) = Some st \<and>
    find (\<lambda>c. course_id c = cid) (courses s) = Some c"
  {
    assume "\<not> int (length (registrationsForCourse s cid)) < maxStudents c"
    then show "registerForCourse s sid cid = (Inl CapacityExceeded, s)"
      using f by (simp add: register_found)
  next
    assume "int (length (registrationsForCourse s cid)) < maxStudents c \<and>
       student_faculty st \<noteq> course_faculty c"
    then show "registerForCourse s sid cid = (Inl FacultyMismatch, s)"
      using f by (simp add: register_found)
  next
    assume "int (length (registrationsForCourse s cid)) < maxStudents c \<and>
       student_faculty st = course_faculty c"
    then show "registerForCourse s sid cid =
           (Inr (), s\<lparr>courseRegistrations :=
              courseRegistrations s @ [\<lparr>studentId = sid, courseId = cid\<rparr>]\<rparr>)"
      using f by (simp add: register_found)
  next
    assume b: "registrationsForCourse s cid = [] \<and> int (length sids) = maxStudents c \<and>
       (\<forall>i\<in>set sids. \<exists>x. find (\<lambda>x. student_id x = i) (students s) = Some x \<and>
           student_faculty x = course_faculty c)"
    from f b show "run s (map (\<lambda>i. RegisterForCourse i cid) sids) =
           s\<lparr>courseRegistrations :=
               courseRegistrations s @ map (\<lambda>i. \<lparr>studentId = i, courseId = cid\<rparr>) sids\<rparr>"
      by (intro register_boundary(1) [where c = c and st = st and sid = sid]) simp_all
    from f b show "registerForCourse (run s (map (\<lambda>i. RegisterForCourse i cid) sids)) sid cid =
           (Inl CapacityExceeded, run s (map (\<lambda>i. RegisterForCourse i cid) sids))"
      by (intro register_boundary(2) [where c = c and st = st and sid = sid]) simp_all
  }
qed

theorem registerForCourse_checks_in_order_witness:
  "registerForCourse campus 9 1 = (Inl NotFound_student, campus) \<and>
   registerForCourse campus 1 9 = (Inl NotFound_course, campus) \<and>
   registerForCourse campus 2 2 = (Inl CapacityExceeded, campus) \<and>
   registerForCourse campus 3 1 = (Inl FacultyMismatch, campus) \<and>
   registerForCourse campus 4 1 =
     (Inr (), campus\<lparr>courseRegistrations :=
        courseRegistrations campus @ [\<lparr>studentId = 4, courseId = 1\<rparr>]\<rparr>) \<and>
   run campus0 [RegisterForCourse 1 2] =
     campus0\<lparr>courseRegistrations := [\<lparr>studentId = 1, courseId = 2\<rparr>]\<rparr> \<and>
   registerForCourse (run campus0 [RegisterForCourse 1 2]) 2 2 =
     (Inl CapacityExceeded, run campus0 [RegisterForCourse 1 2])"
proof -
  have a: "\<forall>x\<in>set (students campus). student_id x \<noteq> 9"
    by code_simp
  have b: "(\<exists>x\<in>set (students campus). student_id x = 1) \<and>
    (\<forall>c\<in>set (courses campus). course_id c \<noteq> 9)"
    by code_simp
  have c: "find (\<lambda>x. student_id x = 2) (students campus) = Some (students campus ! 1) \<and>
    find (\<lambda>c. course_id c = 2) (courses campus) = Some (courses campus ! 1)"
    "\<not> int (length (registrationsForCourse campus 2)) < maxStudents (courses campus ! 1)"
    by code_simp+
  have d: "find (\<lambda>x. student_id x = 3) (students campus) = Some (students campus ! 2) \<and>
    find (\<lambda>c. course_id c = 1) (courses campus) = Some (courses campus ! 0)"
    "int (length (registrationsForCourse campus 1)) < maxStudents (courses campus ! 0) \<and>
     student_faculty (students campus ! 2) \<noteq> course_faculty (courses campus ! 0)"
    by code_simp+
  have e: "find (\<lambda>x. student_id x = 4) (students campus) = Some (students campus ! 3) \<and>
    find (\<lambda>c. course_id c = 1) (courses campus) = Some (courses campus ! 0)"
    "int (length (registrationsForCourse campus 1)) < maxStudents (courses campus ! 0) \<and>
     student_faculty (students campus ! 3) = course_faculty (courses campus ! 0)"
    by code_simp+
  have f: "find (\<lambda>x. student_id x = 2) (students campus0) = Some (students campus0 ! 1) \<and>
    find (\<lambda>c. course_id c = 2) (courses campus0) = Some (courses campus0 ! 1)"
    "registrationsForCourse campus0 2 = [] \<and>
     int (length [1::int]) = maxStudents (courses campus0 ! 1) \<and>
     (\<forall>i\<in>set [1::int]. \<exists>x. find (\<lambda>x. student_id x = i) (students campus0) = Some x \<and>
           student_faculty x = course_faculty (courses campus0 ! 1))"
    "courseRegistrations campus0 = []"
    by (simp_all add: campus0_state registrationsForCourse_def)
  have w1: "registerForCourse campus 9 1 = (Inl NotFound_student, campus)"
    using registerForCourse_checks_in_order [where s = campus and sid = 9 and cid = 1] a
    by blast
  have w2: "registerForCourse campus 1 9 = (Inl NotFound_course, campus)"
    using registerForCourse_checks_in_order [where s = campus and sid = 1 and cid = 9] b
    by blast
  have w3: "registerForCourse campus 2 2 = (Inl CapacityExceeded, campus)"
    using registerForCourse_checks_in_order [where s = campus and sid = 2 and cid = 2
        and st = "students campus ! 1" and c = "courses campus ! 1"] c
    by blast
  have w4: "registerForCourse campus 3 1 = (Inl FacultyMismatch, campus)"
    using registerForCourse_checks_in_order [where s = campus and sid = 3 and cid = 1
        and st = "students campus ! 2" and c = "courses campus ! 0"] d
    by blast
  have w5: "registerForCourse campus 4 1 =
     (Inr (), campus\<lparr>courseRegistrations :=
        courseRegistrations campus @ [\<lparr>studentId = 4, courseId = 1\<rparr>]\<rparr>)"
    using registerForCourse_checks_in_order [where s = campus and sid = 4 and cid = 1
        and st = "students campus ! 3" and c = "courses campus ! 0"] e
    by blast
  have w6: "run campus0 (map (\<lambda>i. RegisterForCourse i 2) [1]) =
      campus0\<lparr>courseRegistrations :=
        courseRegistrations campus0 @ map (\<lambda>i. \<lparr>studentId = i, courseId = 2\<rparr>) [1]\<rparr> \<and>
    registerForCourse (run campus0 (map (\<lambda>i. RegisterForCourse i 2) [1])) 2 2 =
      (Inl CapacityExceeded, run campus0 (map (\<lambda>i. RegisterForCourse i 2) [1]))"
    using registerForCourse_checks_in_order [where s = campus0 and sid = 2 and cid = 2
        and st = "students campus0 ! 1" and c = "courses campus0 ! 1" and sids = "[1]"] f(1,2)
    by blast
  have w6a: "run campus0 [RegisterForCourse 1 2] =
      campus0\<lparr>courseRegistrations := [\<lparr>studentId = 1, courseId = 2\<rparr>]\<rparr>"
    using conjunct1 [OF w6] f(3) by simp
  have w6b: "registerForCourse (run campus0 [RegisterForCourse 1 2]) 2 2 =
     (Inl CapacityExceeded, run campus0 [RegisterForCourse 1 2])"
    using conjunct2 [OF w6] by (simp only: list.map)
  show ?thesis
    using w1 w2 w3 w4 w5 w6a w6b by blast
qed

text \<open>
  Claim C2. \<open>setGrade\<close> throws the not-registered error when no registration has
  exactly this pair of identities; otherwise the course-not-found error when no course
  has the identity; otherwise it returns and the grades are the old ones followed by one
  record whose semester is that of the course found (the caller gives no semester).
  Grading the same pair again appends a second record beside the first, and no sequence
  of calls removes or changes a grade: the old grades stay an initial segment.
\<close>

theorem setGrade_checks_and_appends:
  "(\<not> (\<exists>r\<in>set (courseRegistrations s). studentId r = sid \<and> courseId r = cid) \<longrightarrow>
      setGrade s now sid cid g = (Inl NotRegistered, s)) \<and>
   ((\<exists>r\<in>set (courseRegistrations s). studentId r = sid \<and> courseId r = cid) \<and>
    (\<forall>c\<in>set (courses s). course_id c \<noteq> cid) \<longrightarrow>
      setGrade s now sid cid g = (Inl NotFound_course, s)) \<and>
   ((\<exists>r\<in>set (courseRegistrations s). studentId r = sid \<and> courseId r = cid) \<and>
    find (\<lambda>c. course_id c = cid) (courses s) = Some c \<longrightarrow>
      setGrade s now sid cid g =
        (Inr (), s\<lparr>grades := grades s @
           [\<lparr>grade_studentId = sid, grade_courseId = cid, grade = g,
              date = now, grade_semester = course_semester c\<rparr>]\<rparr>) \<and>
      setGrade (snd (setGrade s now sid cid g)) now' sid cid g' =
        (Inr (), s\<lparr>grades := grades s @
           [\<lparr>grade_studentId = sid, grade_courseId = cid, grade = g,
              date = now, grade_semester = course_semester c\<rparr>,
            \<lparr>grade_studentId = sid, grade_courseId = cid, grade = g',
              date = now', grade_semester = course_semester c\<rparr>]\<rparr>)) \<and>
   prefix (grades s) (grades (run s cs))"
proof (intro conjI impI)
  assume "\<not> (\<exists>r\<in>set (courseRegistrations s). studentId r = sid \<and> courseId r = cid)"
  then show "setGrade s now sid cid g = (Inl NotRegistered, s)"
    by (rule setGrade_not_registered)
next
  assume a: "(\<exists>r\<in>set (courseRegistrations s). studentId r = sid \<and> courseId r = cid) \<and>
    (\<forall>c\<in>set (courses s). course_id c \<noteq> cid)"
  then have "find (\<lambda>c. course_id c = cid) (courses s) = None"
    by (simp add: find_None_set)
  with a show "setGrade s now sid cid g = (Inl NotFound_course, s)"
    by (simp add: setGrade_no_course)
next
  assume a: "(\<exists>r\<in>set (courseRegistrations s). studentId r = sid \<and> courseId r = cid) \<and>
    find (\<lambda>c. course_id c = cid) (courses s) = Some c"
  then show "setGrade s now sid cid g =
        (Inr (), s\<lparr>grades := grades s @
           [\<lparr>grade_studentId = sid, grade_courseId = cid, grade = g,
              date = now, grade_semester = course_semester c\<rparr>]\<rparr>)"
    by (simp add: setGrade_ok)
  from a show "setGrade (snd (setGrade s now sid cid g)) now' sid cid g' =
        (Inr (), s\<lparr>grades := grades s @
           [\<lparr>grade_studentId = sid, grade_courseId = cid, grade = g,
              date = now, grade_semester = course_semester c\<rparr>,
            \<lparr>grade_studentId = sid, grade_courseId = cid, grade = g',
              date = now', grade_semester = course_semester c\<rparr>]\<rparr>)"
    by (intro setGrade_twice) simp_all
next
  show "prefix (grades s) (grades (run s cs))"
    by (rule run_grades)
qed

theorem setGrade_checks_and_appends_witness:
  "setGrade campus 20 4 1 Good = (Inl NotRegistered, campus) \<and>
   setGrade (campus\<lparr>courses := []\<rparr>) 20 1 1 Good = (Inl NotFound_course, campus\<lparr>courses := []\<rparr>) \<and>
   setGrade campus 20 1 2 Good =
     (Inr (), campus\<lparr>grades := grades campus @
        [\<lparr>grade_studentId = 1, grade_courseId = 2, grade = Good,
           date = 20, grade_semester = Second\<rparr>]\<rparr>) \<and>
   setGrade (snd (setGrade campus 20 1 2 Good)) 21 1 2 Excellent =
     (Inr (), campus\<lparr>grades := grades campus @
        [\<lparr>grade_studentId = 1, grade_courseId = 2, grade = Good,
           date = 20, grade_semester = Second\<rparr>,
         \<lparr>grade_studentId = 1, grade_courseId = 2, grade = Excellent,
           date = 21, grade_semester = Second\<rparr>]\<rparr>) \<and>
   prefix (grades campus0) (grades campus)"
proof -
  have a: "\<not> (\<exists>r\<in>set (courseRegistrations campus). studentId r = 4 \<and> courseId r = 1)"
    by code_simp
  have b: "(\<exists>r\<in>set (courseRegistrations (campus\<lparr>courses := []\<rparr>)).
       studentId r = 1 \<and> courseId r = 1) \<and>
    (\<forall>c\<in>set (courses (campus\<lparr>courses := []\<rparr>)). course_id c \<noteq> 1)"
    by code_simp
  have c: "(\<exists>r\<in>set (courseRegistrations campus). studentId r = 1 \<and> courseId r = 2) \<and>
    find (\<lambda>c. course_id c = 2) (courses campus) = Some (courses campus ! 1)"
    by code_simp
  have sem: "course_semester (courses campus ! 1) = Second"
    by code_simp
  have w1: "setGrade campus 20 4 1 Good = (Inl NotRegistered, campus)"
    using setGrade_checks_and_appends [where s = campus and sid = 4 and cid = 1] a
    by blast
  have w2: "setGrade (campus\<lparr>courses := []\<rparr>) 20 1 1 Good =
      (Inl NotFound_course, campus\<lparr>courses := []\<rparr>)"
    using setGrade_checks_and_appends [where s = "campus\<lparr>courses := []\<rparr>" and sid = 1 and cid = 1] b
    by blast
  note w3 = setGrade_checks_and_appends [where s = campus and sid = 1 and cid = 2
      and c = "courses campus ! 1" and now = 20 and g = Good and now' = 21 and g' = Excellent,
      unfolded sem]
  have w4: "prefix (grades campus0) (grades campus)"
    using setGrade_checks_and_appends [where s = campus0 and cs = term_calls]
    by (simp add: campus_def)
  show ?thesis
    using w1 w2 w3 c w4 by blast
qed

text \<open>
  Claim C3. For a student \<open>x\<close> that \<open>find\<close> returns, \<open>updateStudentStatus\<close> throws
  the illegal-transition error exactly when the status of \<open>x\<close> is \<open>Expelled\<close> and the
  new status is not; in every other case (from \<open>Expelled\<close> to \<open>Expelled\<close>, and from any
  other status to any status) it returns, the array differs only at the position of
  \<open>x\<close>, which holds \<open>x\<close> with the new status, and nothing else of the manager changes.
  Hence a student found expelled is found expelled after every sequence of calls.
\<close>

theorem updateStudentStatus_expelled_is_terminal:
  "(find (\<lambda>x. student_id x = sid) (students s) = Some x \<longrightarrow>
      (fst (updateStudentStatus s sid newStatus) = Inl IllegalTransition \<longleftrightarrow>
         status x = Expelled \<and> newStatus \<noteq> Expelled) \<and>
      (status x = Expelled \<and> newStatus \<noteq> Expelled \<longrightarrow>
         updateStudentStatus s sid newStatus = (Inl IllegalTransition, s)) \<and>
      (status x \<noteq> Expelled \<or> newStatus = Expelled \<longrightarrow>
         (\<exists>i<length (students s). students s ! i = x \<and>
            updateStudentStatus s sid newStatus =
              (Inr (), s\<lparr>students := (students s)[i := x\<lparr>status := newStatus\<rparr>]\<rparr>)) \<and>
         find (\<lambda>x. student_id x = sid) (students (snd (updateStudentStatus s sid newStatus))) =
           Some (x\<lparr>status := newStatus\<rparr>))) \<and>
   (find (\<lambda>x. student_id x = sid) (students s) = Some x \<and> status x = Expelled \<longrightarrow>
      (\<exists>y. find (\<lambda>x. student_id x = sid) (students (run s cs)) = Some y \<and>
         status y = Expelled))"
proof (intro conjI impI)
  assume f: "find (\<lambda>x. student_id x = sid) (students s) = Some x"
  show "fst (updateStudentStatus s sid newStatus) = Inl IllegalTransition \<longleftrightarrow>
         status x = Expelled \<and> newStatus \<noteq> Expelled"
    by (simp add: update_found [OF f])
  {
    assume "status x = Expelled \<and> newStatus \<noteq> Expelled"
    then show "updateStudentStatus s sid newStatus = (Inl IllegalTransition, s)"
      by (simp add: update_found [OF f])
  next
    assume ok: "status x \<noteq> Expelled \<or> newStatus = Expelled"
    then have r: "updateStudentStatus s sid newStatus =
        (Inr (), s\<lparr>students := assign_status (students s) sid newStatus\<rparr>)"
      by (auto simp add: update_found [OF f])
    from assign_status_index [OF f, of newStatus]
    show "\<exists>i<length (students s). students s ! i = x \<and>
            updateStudentStatus s sid newStatus =
              (Inr (), s\<lparr>students := (students s)[i := x\<lparr>status := newStatus\<rparr>]\<rparr>)"
      by (auto simp add: r)
    show "find (\<lambda>x. student_id x = sid) (students (snd (updateStudentStatus s sid newStatus))) =
           Some (x\<lparr>status := newStatus\<rparr>)"
      by (simp add: r find_assign_status f)
  }
next
  assume "find (\<lambda>x. student_id x = sid) (students s) = Some x \<and> status x = Expelled"
  then show "\<exists>y. find (\<lambda>x. student_id x = sid) (students (run s cs)) = Some y \<and>
         status y = Expelled"
    by (auto intro: expelled_run)
qed

theorem updateStudentStatus_expelled_is_terminal_witness:
  "updateStudentStatus campus 3 Active = (Inl IllegalTransition, campus) \<and>
   fst (updateStudentStatus campus 3 Expelled) = Inr () \<and>
   find (\<lambda>x. student_id x = 4) (students (snd (updateStudentStatus campus 4 Active))) =
     Some ((students campus ! 3)\<lparr>status := Active\<rparr>) \<and>
   (\<exists>y. find (\<lambda>x. student_id x = 3)
           (students (run campus [UpdateStudentStatus 3 Active, EnrollStudent olena,
              UpdateStudentStatus 3 Graduated])) = Some y \<and>
        status y = Expelled)"
proof -
  have a: "find (\<lambda>x. student_id x = 3) (students campus) = Some (students campus ! 2)"
    "status (students campus ! 2) = Expelled \<and> Active \<noteq> Expelled"
    by code_simp+
  have b: "find (\<lambda>x. student_id x = 4) (students campus) = Some (students campus ! 3)"
    "status (students campus ! 3) \<noteq> Expelled \<or> Active = Expelled"
    by code_simp+
  have w1: "updateStudentStatus campus 3 Active = (Inl IllegalTransition, campus)"
    using a updateStudentStatus_expelled_is_terminal [where s = campus and sid = 3
        and x = "students campus ! 2" and newStatus = Active]
    by blast
  have "\<exists>i<length (students campus). students campus ! i = students campus ! 2 \<and>
            updateStudentStatus campus 3 Expelled =
              (Inr (), campus\<lparr>students :=
                 (students campus)[i := (students campus ! 2)\<lparr>status := Expelled\<rparr>]\<rparr>)"
    using a(1) updateStudentStatus_expelled_is_terminal [where s = campus and sid = 3
        and x = "students campus ! 2" and newStatus = Expelled]
    by blast
  then have w2: "fst (updateStudentStatus campus 3 Expelled) = Inr ()"
    by auto
  have w3: "find (\<lambda>x. student_id x = 4)
       (students (snd (updateStudentStatus campus 4 Active))) =
     Some ((students campus ! 3)\<lparr>status := Active\<rparr>)"
    using b updateStudentStatus_expelled_is_terminal [where s = campus and sid = 4
        and x = "students campus ! 3" and newStatus = Active]
    by blast
  have w4: "\<exists>y. find (\<lambda>x. student_id x = 3)
           (students (run campus [UpdateStudentStatus 3 Active, EnrollStudent olena,
              UpdateStudentStatus 3 Graduated])) = Some y \<and>
        status y = Expelled"
    using a updateStudentStatus_expelled_is_terminal [where s = campus and sid = 3
        and x = "students campus ! 2"
        and cs = "[UpdateStudentStatus 3 Active, EnrollStudent olena,
              UpdateStudentStatus 3 Graduated]"]
    by blast
  show ?thesis
    using w1 w2 w3 w4 by (intro conjI)
qed

text \<open>
  Claim C4 as stated fails. In \<open>graded\<close> student 4 has the grades 5, 4 and 4; the
  average that line 204 returns is the double 4878899596318037 / 2 ^ 50
  (4.333333333333333), not the mean 13 / 3.
\<close>

theorem average_is_not_exact_mean_counterexample:
  "map grade (getStudentGrades graded 4) = [Excellent, Good, Good] \<and>
   calculateAverageGrade graded 4 = 4878899596318037 / 2 ^ 50 \<and>
   calculateAverageGrade graded 4 \<noteq> (5 + 4 + 4) / 3"
  by code_simp

text \<open>
  Claim C4, amended. \<open>calculateAverageGrade\<close> is 0 for a student without grades.
  Otherwise, for an array of fewer than \<open>2 ^ 32\<close> grades (as every array is), it is the
  double nearest to the mean, where the mean is the sum of the numeric values (5 for
  \<open>Excellent\<close>, 4 for \<open>Good\<close>, 3 for \<open>Satisfactory\<close>, 2 for \<open>Unsatisfactory\<close>)
  divided by the number of grades: it differs from the mean by at most \<open>2 ^ (- 51)\<close>, and
  it is the mean whenever the mean is a double (an integer below \<open>2 ^ 53\<close> over a power
  of 2). The grades 5 and 3 give 4, and the single grade 5 gives 5.
\<close>

theorem calculateAverageGrade_is_rounded_mean:
  "(getStudentGrades s sid = [] \<longrightarrow> calculateAverageGrade s sid = 0) \<and>
   (getStudentGrades s sid \<noteq> [] \<and> length (getStudentGrades s sid) < 2 ^ 32 \<longrightarrow>
      calculateAverageGrade s sid =
        to_double
          (of_int (sum_list (map (\<lambda>g. case grade g of Excellent \<Rightarrow> 5 | Good \<Rightarrow> 4
                     | Satisfactory \<Rightarrow> 3 | Unsatisfactory \<Rightarrow> 2) (getStudentGrades s sid))) /
           of_nat (length (getStudentGrades s sid))) \<and>
      \<bar>calculateAverageGrade s sid -
         of_int (sum_list (map (\<lambda>g. case grade g of Excellent \<Rightarrow> 5 | Good \<Rightarrow> 4
                     | Satisfactory \<Rightarrow> 3 | Unsatisfactory \<Rightarrow> 2) (getStudentGrades s sid))) /
         of_nat (length (getStudentGrades s sid))\<bar> \<le> 1 / 2 ^ 51 \<and>
      (of_int (sum_list (map (\<lambda>g. case grade g of Excellent \<Rightarrow> 5 | Good \<Rightarrow> 4
                     | Satisfactory \<Rightarrow> 3 | Unsatisfactory \<Rightarrow> 2) (getStudentGrades s sid))) /
         of_nat (length (getStudentGrades s sid)) = (of_int k :: rat) / 2 ^ j \<and>
       k < 2 ^ 53 \<longrightarrow>
       calculateAverageGrade s sid = of_int k / 2 ^ j)) \<and>
   (map grade (getStudentGrades s sid) = [Excellent, Satisfactory] \<longrightarrow>
      calculateAverageGrade s sid = 4) \<and>
   (map grade (getStudentGrades s sid) = [Excellent] \<longrightarrow>
      calculateAverageGrade s sid = 5)"
proof -
  let ?gs = "getStudentGrades s sid"
  let ?mean = "of_int (sum_list (map (\<lambda>g. case grade g of Excellent \<Rightarrow> 5 | Good \<Rightarrow> 4
                     | Satisfactory \<Rightarrow> 3 | Unsatisfactory \<Rightarrow> 2) ?gs)) /
           of_nat (length ?gs) :: rat"
  have m: "?mean = of_int (sum_list (map (\<lambda>g. grade_value (grade g)) ?gs)) / of_nat (length ?gs)"
    by (simp only: grade_value_cases [symmetric])
  have p1: "?gs = [] \<longrightarrow> calculateAverageGrade s sid = 0"
    by (simp add: average_no_grades)
  have p2: "?gs \<noteq> [] \<and> length ?gs < 2 ^ 32 \<longrightarrow>
      calculateAverageGrade s sid = to_double ?mean \<and>
      \<bar>calculateAverageGrade s sid - ?mean\<bar> \<le> 1 / 2 ^ 51 \<and>
      (?mean = of_int k / 2 ^ j \<and> k < 2 ^ 53 \<longrightarrow>
         calculateAverageGrade s sid = of_int k / 2 ^ j)"
  proof
    assume "?gs \<noteq> [] \<and> length ?gs < 2 ^ 32"
    then have a: "?gs \<noteq> []" "length ?gs < 2 ^ 32"
      by simp_all
    have b1: "calculateAverageGrade s sid = to_double ?mean"
      unfolding m using a by (rule average_eq)
    have b2: "\<bar>calculateAverageGrade s sid - ?mean\<bar> \<le> 1 / 2 ^ 51"
      unfolding m using a by (rule average_near)
    have b3: "?mean = of_int k / 2 ^ j \<and> k < 2 ^ 53 \<longrightarrow>
         calculateAverageGrade s sid = of_int k / 2 ^ j"
    proof
      assume r: "?mean = of_int k / 2 ^ j \<and> k < 2 ^ 53"
      then have "of_int (sum_list (map (\<lambda>g. grade_value (grade g)) ?gs)) / of_nat (length ?gs) =
          (of_int k :: rat) / 2 ^ j"
        unfolding m by simp
      with a show "calculateAverageGrade s sid = of_int k / 2 ^ j"
        using r by (intro average_dyadic) simp_all
    qed
    show "calculateAverageGrade s sid = to_double ?mean \<and>
      \<bar>calculateAverageGrade s sid - ?mean\<bar> \<le> 1 / 2 ^ 51 \<and>
      (?mean = of_int k / 2 ^ j \<and> k < 2 ^ 53 \<longrightarrow>
         calculateAverageGrade s sid = of_int k / 2 ^ j)"
      using b1 b2 b3 by (intro conjI)
  qed
  have p3: "map grade ?gs = [Excellent, Satisfactory] \<longrightarrow> calculateAverageGrade s sid = 4"
    by (simp add: average_5_3)
  have p4: "map grade ?gs = [Excellent] \<longrightarrow> calculateAverageGrade s sid = 5"
    by (simp add: average_5)
  show ?thesis
    using p1 p2 p3 p4 by (intro conjI)
qed

theorem calculateAverageGrade_is_rounded_mean_witness:
  "getStudentGrades campus 4 = [] \<and> calculateAverageGrade campus 4 = 0 \<and>
   map grade (getStudentGrades campus 1) = [Excellent, Satisfactory] \<and>
   calculateAverageGrade campus 1 = 4 \<and>
   map grade (getStudentGrades graded 3) = [Excellent] \<and>
   calculateAverageGrade graded 3 = 5 \<and>
   map grade (getStudentGrades graded 4) = [Excellent, Good, Good] \<and>
   calculateAverageGrade graded 4 = to_double (13 / 3) \<and>
   \<bar>calculateAverageGrade graded 4 - 13 / 3\<bar> \<le> 1 / 2 ^ 51 \<and>
   calculateAverageGrade campus 2 = 4 / 2 ^ 0"
proof -
  have a: "getStudentGrades campus 4 = []"
    and b: "map grade (getStudentGrades campus 1) = [Excellent, Satisfactory]"
    and c: "map grade (getStudentGrades graded 3) = [Excellent]"
    and d: "map grade (getStudentGrades graded 4) = [Excellent, Good, Good]"
    by code_simp+
  have "length (getStudentGrades graded 4) = 3" "length (getStudentGrades campus 2) = 1"
    by code_simp+
  then have e: "getStudentGrades graded 4 \<noteq> [] \<and> length (getStudentGrades graded 4) < 2 ^ 32"
    and g: "getStudentGrades campus 2 \<noteq> [] \<and> length (getStudentGrades campus 2) < 2 ^ 32"
    by auto
  have f: "(of_int (sum_list (map (\<lambda>g. case grade g of Excellent \<Rightarrow> 5 | Good \<Rightarrow> 4
                     | Satisfactory \<Rightarrow> 3 | Unsatisfactory \<Rightarrow> 2) (getStudentGrades graded 4))) /
           of_nat (length (getStudentGrades graded 4)) :: rat) = 13 / 3"
    by code_simp+
  have h: "(of_int (sum_list (map (\<lambda>g. case grade g of Excellent \<Rightarrow> 5 | Good \<Rightarrow> 4
                     | Satisfactory \<Rightarrow> 3 | Unsatisfactory \<Rightarrow> 2) (getStudentGrades campus 2))) /
           of_nat (length (getStudentGrades campus 2)) :: rat) = of_int 4 / 2 ^ 0"
    by code_simp
  have h': "(4::int) < 2 ^ 53"
    by simp
  note t1 = calculateAverageGrade_is_rounded_mean [where s = campus and sid = 4]
  note t2 = calculateAverageGrade_is_rounded_mean [where s = campus and sid = 1]
  note t3 = calculateAverageGrade_is_rounded_mean [where s = graded and sid = 3]
  note t4 = calculateAverageGrade_is_rounded_mean [where s = graded and sid = 4]
  note t5 = calculateAverageGrade_is_rounded_mean [where s = campus and sid = 2
      and k = 4 and j = 0]
  have w1: "calculateAverageGrade campus 4 = 0"
    using a conjunct1 [OF t1] by (rule rev_mp)
  have w2: "calculateAverageGrade campus 1 = 4"
    using b conjunct1 [OF conjunct2 [OF conjunct2 [OF t2]]] by (rule rev_mp)
  have w3: "calculateAverageGrade graded 3 = 5"
    using c conjunct2 [OF conjunct2 [OF conjunct2 [OF t3]]] by (rule rev_mp)
  note m4 = mp [OF conjunct1 [OF conjunct2 [OF t4]] e]
  have w4: "calculateAverageGrade graded 4 = to_double (13 / 3)"
    using conjunct1 [OF m4] by (simp only: f)
  have w5: "\<bar>calculateAverageGrade graded 4 - 13 / 3\<bar> \<le> 1 / 2 ^ 51"
    using conjunct1 [OF conjunct2 [OF m4]] by (simp only: f)
  note m5 = mp [OF conjunct1 [OF conjunct2 [OF t5]] g]
  have w6: "calculateAverageGrade campus 2 = of_int 4 / 2 ^ 0"
    using conjI [OF h h'] conjunct2 [OF conjunct2 [OF m5]] by (rule rev_mp)
  then have w6': "calculateAverageGrade campus 2 = 4 / 2 ^ 0"
    by simp
  show ?thesis
    using a w1 b w2 c w3 d w4 w5 w6' by (intro conjI)
qed

text \<open>
  Claim C5. The code departs from the claim on a large faculty. While the faculty has no
  more students than a call takes arguments, \<open>getTopStudents\<close> returns, in the order of
  the array, exactly the students of the faculty whose average is the maximum of the
  averages of the faculty's students and is greater than 0: a student is returned if and
  only if it belongs to the faculty, no student of the faculty has a greater average, and
  its average is positive; so all students tied at the maximum are returned, and the
  result is empty when no student of the faculty has a grade. Beyond that size the spread
  of line 219 throws \<open>RangeError\<close> and nothing is returned; enrolling \<open>n\<close> students of
  one faculty reaches such a state for every limit below \<open>n\<close>.
\<close>

theorem getTopStudents_within_argument_limit:
  "(length (getStudentsByFaculty s fac) \<le> max_args \<longrightarrow>
      getTopStudents max_args s fac =
        Inr (filter (\<lambda>x. calculateAverageGrade s (student_id x) =
                       Max ((\<lambda>y. calculateAverageGrade s (student_id y)) `
                          set (getStudentsByFaculty s fac)) \<and>
                    0 < calculateAverageGrade s (student_id x))
          (getStudentsByFaculty s fac))) \<and>
   (getTopStudents max_args s fac = Inr xs \<longrightarrow>
      (x \<in> set xs \<longleftrightarrow>
         x \<in> set (students s) \<and> student_faculty x = fac \<and>
         (\<forall>y\<in>set (students s). student_faculty y = fac \<longrightarrow>
            calculateAverageGrade s (student_id y) \<le> calculateAverageGrade s (student_id x)) \<and>
         0 < calculateAverageGrade s (student_id x))) \<and>
   (length (getStudentsByFaculty s fac) \<le> max_args \<and>
    (\<forall>y\<in>set (getStudentsByFaculty s fac). getStudentGrades s (student_id y) = []) \<longrightarrow>
      getTopStudents max_args s fac = Inr []) \<and>
   (max_args < length (getStudentsByFaculty s fac) \<longrightarrow>
      getTopStudents max_args s fac = Inl RangeError) \<and>
   (max_args < n \<longrightarrow>
      getTopStudents max_args (run new_ums (replicate n (EnrollStudent d))) (student_faculty d) =
        Inl RangeError)"
proof (intro conjI impI)
  assume "length (getStudentsByFaculty s fac) \<le> max_args"
  then show "getTopStudents max_args s fac =
        Inr (filter (\<lambda>x. calculateAverageGrade s (student_id x) =
                       Max ((\<lambda>y. calculateAverageGrade s (student_id y)) `
                          set (getStudentsByFaculty s fac)) \<and>
                    0 < calculateAverageGrade s (student_id x))
          (getStudentsByFaculty s fac))"
    by (rule getTopStudents_Max)
next
  assume "getTopStudents max_args s fac = Inr xs"
  then show "x \<in> set xs \<longleftrightarrow>
         x \<in> set (students s) \<and> student_faculty x = fac \<and>
         (\<forall>y\<in>set (students s). student_faculty y = fac \<longrightarrow>
            calculateAverageGrade s (student_id y) \<le> calculateAverageGrade s (student_id x)) \<and>
         0 < calculateAverageGrade s (student_id x)"
    by (rule getTopStudents_set)
next
  assume "length (getStudentsByFaculty s fac) \<le> max_args \<and>
    (\<forall>y\<in>set (getStudentsByFaculty s fac). getStudentGrades s (student_id y) = [])"
  then show "getTopStudents max_args s fac = Inr []"
    by (intro getTopStudents_no_grades) simp_all
next
  assume "max_args < length (getStudentsByFaculty s fac)"
  then show "getTopStudents max_args s fac = Inl RangeError"
    by (rule getTopStudents_beyond)
next
  assume "max_args < n"
  then have "max_args < length (getStudentsByFaculty
      (run new_ums (replicate n (EnrollStudent d))) (student_faculty d))"
    by (simp only: faculty_after_enrolments)
  then show "getTopStudents max_args (run new_ums (replicate n (EnrollStudent d)))
      (student_faculty d) = Inl RangeError"
    by (rule getTopStudents_beyond)
qed

theorem getTopStudents_within_argument_limit_witness:
  "student_faculty ivan = Computer_Science \<and>
   getTopStudents 65536 crowd Computer_Science = Inl RangeError \<and>
   getTopStudents 65536 campus Computer_Science = Inr [students campus ! 0, students campus ! 1] \<and>
   calculateAverageGrade campus (student_id (students campus ! 0)) =
     calculateAverageGrade campus (student_id (students campus ! 1)) \<and>
   students campus ! 3 \<notin> set [students campus ! 0, students campus ! 1] \<and>
   getTopStudents 65536 campus Economics = Inr [] \<and>
   getTopStudents 65536 campus0 Computer_Science = Inr [] \<and>
   getTopStudents 3 graded Computer_Science = Inr [students graded ! 3] \<and>
   getTopStudents 2 graded Computer_Science = Inl RangeError"
proof -
  have fac: "student_faculty ivan = Computer_Science"
    by (simp add: ivan_def)
  have lim: "(65536::nat) < 200000"
    by simp
  note t = getTopStudents_within_argument_limit [where max_args = 65536 and n = 200000
        and d = ivan]
  have "getTopStudents 65536 (run new_ums (replicate 200000 (EnrollStudent ivan)))
      (student_faculty ivan) = Inl RangeError"
    using lim conjunct2 [OF conjunct2 [OF conjunct2 [OF conjunct2 [OF t]]]] by (rule rev_mp)
  then have w1: "getTopStudents 65536 crowd Computer_Science = Inl RangeError"
    by (simp only: fac crowd_def)
  have "length (getStudentsByFaculty campus Computer_Science) = 3"
    "length (getStudentsByFaculty campus Economics) = 1"
    "length (getStudentsByFaculty campus0 Computer_Science) = 3"
    by code_simp+
  then have len: "length (getStudentsByFaculty campus Computer_Science) \<le> 65536"
    "length (getStudentsByFaculty campus Economics) \<le> 65536"
    "length (getStudentsByFaculty campus0 Computer_Science) \<le> 65536"
    by simp_all
  have a: "filter (\<lambda>x. calculateAverageGrade campus (student_id x) =
                       Max ((\<lambda>y. calculateAverageGrade campus (student_id y)) `
                          set (getStudentsByFaculty campus Computer_Science)) \<and>
                    0 < calculateAverageGrade campus (student_id x))
          (getStudentsByFaculty campus Computer_Science) =
       [students campus ! 0, students campus ! 1]"
    "calculateAverageGrade campus (student_id (students campus ! 0)) =
     calculateAverageGrade campus (student_id (students campus ! 1))"
    "students campus ! 3 \<notin> set [students campus ! 0, students campus ! 1]"
    by code_simp+
  have w2: "getTopStudents 65536 campus Computer_Science =
      Inr [students campus ! 0, students campus ! 1]"
    using len(1) getTopStudents_within_argument_limit [where max_args = 65536 and s = campus
        and fac = Computer_Science]
    unfolding a(1) by blast
  have b: "\<forall>y\<in>set (getStudentsByFaculty campus Economics).
        getStudentGrades campus (student_id y) = []"
    "\<forall>y\<in>set (getStudentsByFaculty campus0 Computer_Science).
        getStudentGrades campus0 (student_id y) = []"
    by code_simp+
  have w3: "getTopStudents 65536 campus Economics = Inr []"
    using len(2) b(1) getTopStudents_within_argument_limit [where max_args = 65536 and s = campus
        and fac = Economics]
    by blast
  have w4: "getTopStudents 65536 campus0 Computer_Science = Inr []"
    using len(3) b(2) getTopStudents_within_argument_limit [where max_args = 65536
        and s = campus0 and fac = Computer_Science]
    by blast
  have c: "length (getStudentsByFaculty graded Computer_Science) \<le> 3"
    "filter (\<lambda>x. calculateAverageGrade graded (student_id x) =
                       Max ((\<lambda>y. calculateAverageGrade graded (student_id y)) `
                          set (getStudentsByFaculty graded Computer_Science)) \<and>
                    0 < calculateAverageGrade graded (student_id x))
          (getStudentsByFaculty graded Computer_Science) = [students graded ! 3]"
    "2 < length (getStudentsByFaculty graded Computer_Science)"
    by code_simp+
  have w5: "getTopStudents 3 graded Computer_Science = Inr [students graded ! 3]"
    using c(1) getTopStudents_within_argument_limit [where max_args = 3 and s = graded
        and fac = Computer_Science]
    unfolding c(2) by blast
  have w6: "getTopStudents 2 graded Computer_Science = Inl RangeError"
    using c(3) getTopStudents_within_argument_limit [where max_args = 2 and s = graded
        and fac = Computer_Science]
    by blast
  show ?thesis
    using fac w1 w2 a(2) a(3) w3 w4 w5 w6 by (intro conjI)
qed

text \<open>
  Claim C6. The code departs from the claim when an argument carries an \<open>id\<close>. Both
  counters start at 1; \<open>enrollStudent\<close> adds one to the student counter and
  \<open>addCourse\<close> to the course counter, whatever the argument, and no other call changes
  a counter, so no sequence of calls lowers one. The identity of the new record is the
  value of the counter when the argument has no \<open>id\<close> of its own, and the \<open>id\<close> of the
  argument otherwise, which the counter does not control. After a sequence of calls on a
  new manager none of whose arguments carries an \<open>id\<close>, the identities in each array are
  1, 2, ... up to the counter minus one, in order, and the identity that such a further
  \<open>enrollStudent\<close> or \<open>addCourse\<close> returns is greater than every identity of its kind
  assigned before, the identities of the kind staying distinct.
\<close>

theorem identities_from_counters:
  "nextStudentId new_ums = 1 \<and> nextCourseId new_ums = 1 \<and>
   (nextStudentId (snd (enrollStudent s d)) = nextStudentId s + 1 \<and>
    nextCourseId (snd (enrollStudent s d)) = nextCourseId s) \<and>
   (nextCourseId (snd (addCourse s d')) = nextCourseId s + 1 \<and>
    nextStudentId (snd (addCourse s d')) = nextStudentId s) \<and>
   nextStudentId (step s c) =
     (case c of EnrollStudent a \<Rightarrow> nextStudentId s + 1 | _ \<Rightarrow> nextStudentId s) \<and>
   nextCourseId (step s c) =
     (case c of AddCourse a \<Rightarrow> nextCourseId s + 1 | _ \<Rightarrow> nextCourseId s) \<and>
   nextStudentId s \<le> nextStudentId (run s cs) \<and>
   nextCourseId s \<le> nextCourseId (run s cs) \<and>
   (student_input_id d = None \<longrightarrow> student_id (fst (enrollStudent s d)) = nextStudentId s) \<and>
   (course_input_id d' = None \<longrightarrow> course_id (fst (addCourse s d')) = nextCourseId s) \<and>
   (student_input_id d = Some i \<longrightarrow> student_id (fst (enrollStudent s d)) = i) \<and>
   (course_input_id d' = Some i' \<longrightarrow> course_id (fst (addCourse s d')) = i') \<and>
   (list_all without_id cs \<longrightarrow>
      map student_id (students (run new_ums cs)) = [1..nextStudentId (run new_ums cs) - 1] \<and>
      map course_id (courses (run new_ums cs)) = [1..nextCourseId (run new_ums cs) - 1] \<and>
      (student_input_id d = None \<longrightarrow>
         (\<forall>x\<in>set (students (run new_ums cs)).
            student_id x < student_id (fst (enrollStudent (run new_ums cs) d))) \<and>
         distinct (map student_id (students (snd (enrollStudent (run new_ums cs) d))))) \<and>
      (course_input_id d' = None \<longrightarrow>
         (\<forall>x\<in>set (courses (run new_ums cs)).
            course_id x < course_id (fst (addCourse (run new_ums cs) d'))) \<and>
         distinct (map course_id (courses (snd (addCourse (run new_ums cs) d'))))))"
proof -
  let ?r = "run new_ums cs"
  have 1: "nextStudentId new_ums = 1 \<and> nextCourseId new_ums = 1"
    by (simp add: new_ums_def)
  have 2: "nextStudentId (snd (enrollStudent s d)) = nextStudentId s + 1 \<and>
    nextCourseId (snd (enrollStudent s d)) = nextCourseId s"
    by (simp add: enroll_state)
  have 3: "nextCourseId (snd (addCourse s d')) = nextCourseId s + 1 \<and>
    nextStudentId (snd (addCourse s d')) = nextStudentId s"
    by (simp add: addCourse_state)
  have 4: "student_input_id d = None \<longrightarrow> student_id (fst (enrollStudent s d)) = nextStudentId s"
    "course_input_id d' = None \<longrightarrow> course_id (fst (addCourse s d')) = nextCourseId s"
    "student_input_id d = Some i \<longrightarrow> student_id (fst (enrollStudent s d)) = i"
    "course_input_id d' = Some i' \<longrightarrow> course_id (fst (addCourse s d')) = i'"
    by (simp_all add: enroll_result addCourse_result)
  have 5: "list_all without_id cs \<longrightarrow>
      map student_id (students ?r) = [1..nextStudentId ?r - 1] \<and>
      map course_id (courses ?r) = [1..nextCourseId ?r - 1] \<and>
      (student_input_id d = None \<longrightarrow>
         (\<forall>x\<in>set (students ?r). student_id x < student_id (fst (enrollStudent ?r d))) \<and>
         distinct (map student_id (students (snd (enrollStudent ?r d))))) \<and>
      (course_input_id d' = None \<longrightarrow>
         (\<forall>x\<in>set (courses ?r). course_id x < course_id (fst (addCourse ?r d'))) \<and>
         distinct (map course_id (courses (snd (addCourse ?r d')))))"
  proof (intro impI conjI)
    assume cs: "list_all without_id cs"
    have inv: "identities_in_order ?r"
      using new_identities cs by (rule run_identities)
    show "map student_id (students ?r) = [1..nextStudentId ?r - 1]"
      "map course_id (courses ?r) = [1..nextCourseId ?r - 1]"
      using inv by (simp_all add: identities_in_order_def)
    {
      assume d: "student_input_id d = None"
      then have "identities_in_order (step ?r (EnrollStudent d))"
        using inv by (intro step_identities) (simp_all add: without_id_def)
      then have inv_e: "identities_in_order (snd (enrollStudent ?r d))"
        by simp
      show "\<forall>x\<in>set (students ?r). student_id x < student_id (fst (enrollStudent ?r d))"
        using identities_below(1) [OF inv] d by (simp add: enroll_result)
      show "distinct (map student_id (students (snd (enrollStudent ?r d))))"
        by (rule identities_below(3) [OF inv_e])
    }
    {
      assume d: "course_input_id d' = None"
      then have "identities_in_order (step ?r (AddCourse d'))"
        using inv by (intro step_identities) (simp_all add: without_id_def)
      then have inv_a: "identities_in_order (snd (addCourse ?r d'))"
        by simp
      show "\<forall>x\<in>set (courses ?r). course_id x < course_id (fst (addCourse ?r d'))"
        using identities_below(2) [OF inv] d by (simp add: addCourse_result)
      show "distinct (map course_id (courses (snd (addCourse ?r d'))))"
        by (rule identities_below(4) [OF inv_a])
    }
  qed
  show ?thesis
    using 1 2 3 4 5 step_nextStudentId [of s c] step_nextCourseId [of s c]
      run_counters [of s cs]
    by (intro conjI) simp_all
qed

theorem identities_from_counters_witness:
  "student_input_id ivan_again = Some 1 \<and>
   student_id (fst (enrollStudent (run new_ums [EnrollStudent ivan]) ivan_again)) = 1 \<and>
   nextStudentId (snd (enrollStudent (run new_ums [EnrollStudent ivan]) ivan_again)) = 3 \<and>
   map student_id (students twice) = [1, 1] \<and>
   \<not> distinct (map student_id (students twice)) \<and>
   list_all without_id enrolment_calls \<and>
   map student_id (students campus0) = [1, 2, 3, 4] \<and>
   map course_id (courses campus0) = [1, 2] \<and>
   student_id (fst (enrollStudent campus0 ivan)) = 5 \<and>
   course_id (fst (addCourse campus0 seminar)) = 3 \<and>
   list_all (\<lambda>x. student_id x < 5) (students campus0) \<and>
   list_all (\<lambda>x. course_id x < 3) (courses campus0) \<and>
   nextStudentId (step campus0 (EnrollStudent ivan)) = 6 \<and>
   nextStudentId (step campus0 (RegisterForCourse 1 1)) = 5"
proof -
  have again: "student_input_id ivan_again = Some 1"
    and n1: "nextStudentId (run new_ums [EnrollStudent ivan]) = 2"
    and tw: "map student_id (students twice) = [1, 1]"
      "\<not> distinct (map student_id (students twice))"
    by code_simp+
  note b = identities_from_counters [where s = "run new_ums [EnrollStudent ivan]"
      and d = ivan_again and i = 1]
  have v1: "student_id (fst (enrollStudent (run new_ums [EnrollStudent ivan]) ivan_again)) = 1"
    using again b by blast
  have "nextStudentId (snd (enrollStudent (run new_ums [EnrollStudent ivan]) ivan_again)) =
      nextStudentId (run new_ums [EnrollStudent ivan]) + 1"
    using b by blast
  then have v2: "nextStudentId (snd (enrollStudent (run new_ums [EnrollStudent ivan])
      ivan_again)) = 3"
    by (simp only: n1)
  have n: "nextStudentId campus0 = 5" "nextCourseId campus0 = 3"
    and ok: "list_all without_id enrolment_calls"
    and none: "student_input_id ivan = None" "course_input_id seminar = None"
    by code_simp+
  note t = identities_from_counters [where cs = enrolment_calls and s = campus0 and d = ivan
      and d' = seminar and c = "EnrollStudent ivan", folded campus0_def, unfolded n]
  have u: "[1..5 - 1] = [1, 2, 3, 4::int]" "[1..3 - 1] = [1, 2::int]"
    by code_simp+
  have w1: "map student_id (students campus0) = [1, 2, 3, 4]"
    using t ok unfolding u by blast
  have w2: "map course_id (courses campus0) = [1, 2]"
    using t ok unfolding u by blast
  have w3: "student_id (fst (enrollStudent campus0 ivan)) = 5"
    using t none by blast
  have w4: "course_id (fst (addCourse campus0 seminar)) = 3"
    using t none by blast
  have "\<forall>x\<in>set (students campus0).
      student_id x < student_id (fst (enrollStudent campus0 ivan))"
    using t ok none by blast
  then have w5: "list_all (\<lambda>x. student_id x < 5) (students campus0)"
    by (simp only: w3 list_all_iff)
  have "\<forall>x\<in>set (courses campus0).
      course_id x < course_id (fst (addCourse campus0 seminar))"
    using t ok none by blast
  then have w6: "list_all (\<lambda>x. course_id x < 3) (courses campus0)"
    by (simp only: w4 list_all_iff)
  have w7: "nextStudentId (step campus0 (EnrollStudent ivan)) = 6"
    using t by simp
  have w8: "nextStudentId (step campus0 (RegisterForCourse 1 1)) = 5"
    using identities_from_counters [where s = campus0 and c = "RegisterForCourse 1 1"]
    by (simp add: n)
  show ?thesis
    using again v1 v2 tw ok w1 w2 w3 w4 w5 w6 w7 w8 by (intro conjI)
qed

text \<open>
  Claim C7. When \<open>registerForCourse\<close>, \<open>setGrade\<close> or \<open>updateStudentStatus\<close>
  throws, the manager after the call is the manager before it: the four arrays and the
  two counters are the same. The manager remains usable: any later calls do what they
  would have done without the failed call.
\<close>

theorem failed_call_leaves_state:
  "(fst (registerForCourse s sid cid) = Inl e1 \<longrightarrow>
      snd (registerForCourse s sid cid) = s \<and>
      run s (RegisterForCourse sid cid # cs) = run s cs) \<and>
   (fst (setGrade s now sid cid g) = Inl e2 \<longrightarrow>
      snd (setGrade s now sid cid g) = s \<and>
      run s (SetGrade now sid cid g # cs) = run s cs) \<and>
   (fst (updateStudentStatus s sid newStatus) = Inl e3 \<longrightarrow>
      snd (updateStudentStatus s sid newStatus) = s \<and>
      run s (UpdateStudentStatus sid newStatus # cs) = run s cs)"
  by (simp add: run_Cons register_fail_state setGrade_fail_state update_fail_state)

theorem failed_call_leaves_state_witness:
  "fst (registerForCourse campus 2 2) = Inl CapacityExceeded \<and>
   snd (registerForCourse campus 2 2) = campus \<and>
   run campus [RegisterForCourse 2 2, RegisterForCourse 4 1] = run campus [RegisterForCourse 4 1] \<and>
   fst (setGrade campus 20 4 1 Good) = Inl NotRegistered \<and>
   snd (setGrade campus 20 4 1 Good) = campus \<and>
   fst (updateStudentStatus campus 3 Active) = Inl IllegalTransition \<and>
   snd (updateStudentStatus campus 3 Active) = campus"
proof -
  have h: "fst (registerForCourse campus 2 2) = Inl CapacityExceeded"
    "fst (setGrade campus 20 4 1 Good) = Inl NotRegistered"
    "fst (updateStudentStatus campus 3 Active) = Inl IllegalTransition"
    by code_simp+
  have w1: "snd (registerForCourse campus 2 2) = campus \<and>
      run campus (RegisterForCourse 2 2 # [RegisterForCourse 4 1]) =
        run campus [RegisterForCourse 4 1]"
    using h(1) failed_call_leaves_state [where s = campus and sid = 2 and cid = 2
        and ?e1.0 = CapacityExceeded and cs = "[RegisterForCourse 4 1]"]
    by blast
  have w2: "snd (setGrade campus 20 4 1 Good) = campus"
    using h(2) failed_call_leaves_state [where s = campus and sid = 4 and cid = 1 and now = 20
        and g = Good and ?e2.0 = NotRegistered]
    by blast
  have w3: "snd (updateStudentStatus campus 3 Active) = campus"
    using h(3) failed_call_leaves_state [where s = campus and sid = 3 and newStatus = Active
        and ?e3.0 = IllegalTransition]
    by blast
  show ?thesis
    using h w1 w2 w3 by simp
qed

text \<open>
  Claim C8 as stated fails. In \<open>campus\<close> student 1 is registered for course 2, which has
  room for one student; registering the same pair again is rejected, because the capacity
  rule is checked again and the existing registration counts.
\<close>

theorem duplicate_registration_counterexample:
  "\<lparr>studentId = 1, courseId = 2\<rparr> \<in> set (courseRegistrations campus) \<and>
   registerForCourse campus 1 2 = (Inl CapacityExceeded, campus)"
  by code_simp

text \<open>
  Claim C8, amended. There is no check for duplicates: when a registration of the pair
  already exists, a further call goes through the same four checks as any call, in the
  same order and with the same errors, and the existing registration counts toward the
  capacity. With no student of the identity it throws the student-not-found error; with
  no course of the identity, the course-not-found error; with the number of registrations
  for the course not below \<open>maxStudents\<close>, the course-full error; with different
  faculties, the faculty error; each error leaves the manager as it was. Otherwise, and
  only then, it returns and appends another registration of the same pair, which occurs
  once more than before.
\<close>

theorem duplicate_registration_same_checks:
  "\<lparr>studentId = sid, courseId = cid\<rparr> \<in> set (courseRegistrations s) \<longrightarrow>
     0 < length (registrationsForCourse s cid) \<and>
     (fst (registerForCourse s sid cid) = Inr () \<longleftrightarrow>
        (\<exists>st c. find (\<lambda>x. student_id x = sid) (students s) = Some st \<and>
           find (\<lambda>c. course_id c = cid) (courses s) = Some c \<and>
           int (length (registrationsForCourse s cid)) < maxStudents c \<and>
           student_faculty st = course_faculty c)) \<and>
     (fst (registerForCourse s sid cid) = Inr () \<longrightarrow>
        snd (registerForCourse s sid cid) =
          s\<lparr>courseRegistrations :=
              courseRegistrations s @ [\<lparr>studentId = sid, courseId = cid\<rparr>]\<rparr> \<and>
        count_list (courseRegistrations (snd (registerForCourse s sid cid)))
            \<lparr>studentId = sid, courseId = cid\<rparr> =
          Suc (count_list (courseRegistrations s) \<lparr>studentId = sid, courseId = cid\<rparr>)) \<and>
     (fst (registerForCourse s sid cid) \<noteq> Inr () \<longrightarrow>
        snd (registerForCourse s sid cid) = s \<and>
        fst (registerForCourse s sid cid) \<in>
          {Inl NotFound_student, Inl NotFound_course, Inl CapacityExceeded, Inl FacultyMismatch}) \<and>
     ((\<forall>x\<in>set (students s). student_id x \<noteq> sid) \<longrightarrow>
        registerForCourse s sid cid = (Inl NotFound_student, s)) \<and>
     ((\<exists>x\<in>set (students s). student_id x = sid) \<and>
      (\<forall>c\<in>set (courses s). course_id c \<noteq> cid) \<longrightarrow>
        registerForCourse s sid cid = (Inl NotFound_course, s)) \<and>
     (find (\<lambda>x. student_id x = sid) (students s) = Some st \<and>
      find (\<lambda>c. course_id c = cid) (courses s) = Some c \<longrightarrow>
        (\<not> int (length (registrationsForCourse s cid)) < maxStudents c \<longrightarrow>
           registerForCourse s sid cid = (Inl CapacityExceeded, s)) \<and>
        (int (length (registrationsForCourse s cid)) < maxStudents c \<and>
         student_faculty st \<noteq> course_faculty c \<longrightarrow>
           registerForCourse s sid cid = (Inl FacultyMismatch, s)) \<and>
        (int (length (registrationsForCourse s cid)) < maxStudents c \<and>
         student_faculty st = course_faculty c \<longrightarrow>
           registerForCourse s sid cid =
             (Inr (), s\<lparr>courseRegistrations :=
                courseRegistrations s @ [\<lparr>studentId = sid, courseId = cid\<rparr>]\<rparr>)))"
proof (intro impI conjI)
  assume "\<lparr>studentId = sid, courseId = cid\<rparr> \<in> set (courseRegistrations s)"
  then have "\<lparr>studentId = sid, courseId = cid\<rparr> \<in> set (registrationsForCourse s cid)"
    by (simp add: registrationsForCourse_def)
  then show "0 < length (registrationsForCourse s cid)"
    by (cases "registrationsForCourse s cid") simp_all
next
  show "fst (registerForCourse s sid cid) = Inr () \<longleftrightarrow>
        (\<exists>st c. find (\<lambda>x. student_id x = sid) (students s) = Some st \<and>
           find (\<lambda>c. course_id c = cid) (courses s) = Some c \<and>
           int (length (registrationsForCourse s cid)) < maxStudents c \<and>
           student_faculty st = course_faculty c)"
    by (rule register_ok_iff)
next
  assume ok: "fst (registerForCourse s sid cid) = Inr ()"
  then show "snd (registerForCourse s sid cid) =
          s\<lparr>courseRegistrations :=
              courseRegistrations s @ [\<lparr>studentId = sid, courseId = cid\<rparr>]\<rparr>"
    by (rule register_ok_state)
  then show "count_list (courseRegistrations (snd (registerForCourse s sid cid)))
            \<lparr>studentId = sid, courseId = cid\<rparr> =
          Suc (count_list (courseRegistrations s) \<lparr>studentId = sid, courseId = cid\<rparr>)"
    by simp
next
  assume no: "fst (registerForCourse s sid cid) \<noteq> Inr ()"
  then obtain e where e: "fst (registerForCourse s sid cid) = Inl e"
    by (cases "fst (registerForCourse s sid cid)") auto
  then show "snd (registerForCourse s sid cid) = s"
    by (rule register_fail_state)
  have "fst (registerForCourse s sid cid) \<in>
          {Inr (), Inl NotFound_student, Inl NotFound_course, Inl CapacityExceeded,
           Inl FacultyMismatch}"
    by (rule register_outcomes)
  with no show "fst (registerForCourse s sid cid) \<in>
          {Inl NotFound_student, Inl NotFound_course, Inl CapacityExceeded, Inl FacultyMismatch}"
    by simp
next
  assume "\<forall>x\<in>set (students s). student_id x \<noteq> sid"
  then have "find (\<lambda>x. student_id x = sid) (students s) = None"
    by (simp add: find_None_set)
  then show "registerForCourse s sid cid = (Inl NotFound_student, s)"
    by (rule register_no_student)
next
  assume a: "(\<exists>x\<in>set (students s). student_id x = sid) \<and>
    (\<forall>c\<in>set (courses s). course_id c \<noteq> cid)"
  then have "find (\<lambda>x. student_id x = sid) (students s) \<noteq> None"
    by (simp add: find_None_set)
  then obtain x where x: "find (\<lambda>x. student_id x = sid) (students s) = Some x"
    by blast
  from a have "find (\<lambda>c. course_id c = cid) (courses s) = None"
    by (simp add: find_None_set)
  with x show "registerForCourse s sid cid = (Inl NotFound_course, s)"
    by (rule register_no_course)
next
  assume f: "find (\<lambda>x. student_id x = sid) (students s) = Some st \<and>
    find (\<lambda>c. course_id c = cid) (courses s) = Some c"
  {
    assume "\<not> int (length (registrationsForCourse s cid)) < maxStudents c"
    then show "registerForCourse s sid cid = (Inl CapacityExceeded, s)"
      using f by (simp add: register_found)
  next
    assume "int (length (registrationsForCourse s cid)) < maxStudents c \<and>
       student_faculty st \<noteq> course_faculty c"
    then show "registerForCourse s sid cid = (Inl FacultyMismatch, s)"
      using f by (simp add: register_found)
  next
    assume "int (length (registrationsForCourse s cid)) < maxStudents c \<and>
       student_faculty st = course_faculty c"
    then show "registerForCourse s sid cid =
           (Inr (), s\<lparr>courseRegistrations :=
              courseRegistrations s @ [\<lparr>studentId = sid, courseId = cid\<rparr>]\<rparr>)"
      using f by (simp add: register_found)
  }
qed

theorem duplicate_registration_same_checks_witness:
  "\<lparr>studentId = 1, courseId = 1\<rparr> \<in> set (courseRegistrations campus) \<and>
   fst (registerForCourse campus 1 1) = Inr () \<and>
   snd (registerForCourse campus 1 1) =
     campus\<lparr>courseRegistrations :=
        courseRegistrations campus @ [\<lparr>studentId = 1, courseId = 1\<rparr>]\<rparr> \<and>
   count_list (courseRegistrations (snd (registerForCourse campus 1 1)))
     \<lparr>studentId = 1, courseId = 1\<rparr> = 2 \<and>
   \<lparr>studentId = 1, courseId = 2\<rparr> \<in> set (courseRegistrations campus) \<and>
   fst (registerForCourse campus 1 2) \<noteq> Inr () \<and>
   snd (registerForCourse campus 1 2) = campus \<and>
   registerForCourse campus 1 2 = (Inl CapacityExceeded, campus) \<and>
   registerForCourse (campus\<lparr>students := []\<rparr>) 1 1 =
     (Inl NotFound_student, campus\<lparr>students := []\<rparr>) \<and>
   registerForCourse (campus\<lparr>courses := []\<rparr>) 1 1 =
     (Inl NotFound_course, campus\<lparr>courses := []\<rparr>) \<and>
   registerForCourse (campus\<lparr>courseRegistrations := [\<lparr>studentId = 3, courseId = 1\<rparr>]\<rparr>) 3 1 =
     (Inl FacultyMismatch, campus\<lparr>courseRegistrations := [\<lparr>studentId = 3, courseId = 1\<rparr>]\<rparr>)"
proof -
  have a: "\<lparr>studentId = 1, courseId = 1\<rparr> \<in> set (courseRegistrations campus)"
    "fst (registerForCourse campus 1 1) = Inr ()"
    "count_list (courseRegistrations campus) \<lparr>studentId = 1, courseId = 1\<rparr> = 1"
    by code_simp+
  have b: "\<lparr>studentId = 1, courseId = 2\<rparr> \<in> set (courseRegistrations campus)"
    "fst (registerForCourse campus 1 2) \<noteq> Inr ()"
    "find (\<lambda>x. student_id x = 1) (students campus) = Some (students campus ! 0) \<and>
     find (\<lambda>c. course_id c = 2) (courses campus) = Some (courses campus ! 1)"
    "\<not> int (length (registrationsForCourse campus 2)) < maxStudents (courses campus ! 1)"
    by code_simp+
  have c: "\<lparr>studentId = 1, courseId = 1\<rparr> \<in> set (courseRegistrations (campus\<lparr>students := []\<rparr>))"
    "\<forall>x\<in>set (students (campus\<lparr>students := []\<rparr>)). student_id x \<noteq> 1"
    by code_simp+
  have d: "\<lparr>studentId = 1, courseId = 1\<rparr> \<in> set (courseRegistrations (campus\<lparr>courses := []\<rparr>))"
    "(\<exists>x\<in>set (students (campus\<lparr>courses := []\<rparr>)). student_id x = 1) \<and>
     (\<forall>c\<in>set (courses (campus\<lparr>courses := []\<rparr>)). course_id c \<noteq> 1)"
    by code_simp+
  let ?m = "campus\<lparr>courseRegistrations := [\<lparr>studentId = 3, courseId = 1\<rparr>]\<rparr>"
  have e: "\<lparr>studentId = 3, courseId = 1\<rparr> \<in> set (courseRegistrations ?m)"
    "find (\<lambda>x. student_id x = 3) (students ?m) = Some (students campus ! 2) \<and>
     find (\<lambda>c. course_id c = 1) (courses ?m) = Some (courses campus ! 0)"
    "int (length (registrationsForCourse ?m 1)) < maxStudents (courses campus ! 0) \<and>
     student_faculty (students campus ! 2) \<noteq> course_faculty (courses campus ! 0)"
    by code_simp+
  have w1: "snd (registerForCourse campus 1 1) =
     campus\<lparr>courseRegistrations :=
        courseRegistrations campus @ [\<lparr>studentId = 1, courseId = 1\<rparr>]\<rparr> \<and>
     count_list (courseRegistrations (snd (registerForCourse campus 1 1)))
       \<lparr>studentId = 1, courseId = 1\<rparr> =
     Suc (count_list (courseRegistrations campus) \<lparr>studentId = 1, courseId = 1\<rparr>)"
    using a(1,2) duplicate_registration_same_checks [where sid = 1 and cid = 1 and s = campus]
    by blast
  have w2: "snd (registerForCourse campus 1 2) = campus"
    using b(1,2) duplicate_registration_same_checks [where sid = 1 and cid = 2 and s = campus]
    by blast
  have w3: "count_list (courseRegistrations (snd (registerForCourse campus 1 1)))
     \<lparr>studentId = 1, courseId = 1\<rparr> = 2"
    using conjunct2 [OF w1] by (simp only: a(3))
  have w4: "registerForCourse campus 1 2 = (Inl CapacityExceeded, campus)"
    using b(1,3,4) duplicate_registration_same_checks [where sid = 1 and cid = 2 and s = campus
        and st = "students campus ! 0" and c = "courses campus ! 1"]
    by blast
  have w5: "registerForCourse (campus\<lparr>students := []\<rparr>) 1 1 =
     (Inl NotFound_student, campus\<lparr>students := []\<rparr>)"
    using c duplicate_registration_same_checks [where sid = 1 and cid = 1
        and s = "campus\<lparr>students := []\<rparr>"]
    by blast
  have w6: "registerForCourse (campus\<lparr>courses := []\<rparr>) 1 1 =
     (Inl NotFound_course, campus\<lparr>courses := []\<rparr>)"
    using d duplicate_registration_same_checks [where sid = 1 and cid = 1
        and s = "campus\<lparr>courses := []\<rparr>"]
    by blast
  have w7: "registerForCourse ?m 3 1 = (Inl FacultyMismatch, ?m)"
    using e duplicate_registration_same_checks [where sid = 3 and cid = 1 and s = ?m
        and st = "students campus ! 2" and c = "courses campus ! 0"]
    by blast
  show ?thesis
    using a(1,2) b(1,2) conjunct1 [OF w1] w2 w3 w4 w5 w6 w7 by (intro conjI)
qed

text \<open>
  Claim C9. After every sequence of calls the courses that were in the manager are still
  there, unchanged and in place (the old array is an initial segment of the new one), and
  so are the students up to their status: every old student is at its position with the
  same identity, name, faculty, year, enrolment date and group. A call other than
  \<open>updateStudentStatus\<close> leaves the old students wholly unchanged. \<open>addCourse\<close> and
  \<open>enrollStudent\<close> only append the record they return.
\<close>

theorem courses_and_student_fields_are_kept:
  "prefix (courses s) (courses (run s cs)) \<and>
   students_kept (students s) (students (run s cs)) \<and>
   ((\<forall>i st. c \<noteq> UpdateStudentStatus i st) \<longrightarrow>
      prefix (students s) (students (step s c))) \<and>
   courses (snd (addCourse s d)) = courses s @ [fst (addCourse s d)] \<and>
   students (snd (enrollStudent s d')) = students s @ [fst (enrollStudent s d')]"
proof (intro conjI impI)
  show "prefix (courses s) (courses (run s cs))"
    by (rule run_courses)
  show "students_kept (students s) (students (run s cs))"
    by (rule run_students)
  show "courses (snd (addCourse s d)) = courses s @ [fst (addCourse s d)]"
    by (simp add: addCourse_state)
  show "students (snd (enrollStudent s d')) = students s @ [fst (enrollStudent s d')]"
    by (simp add: enroll_state)
next
  assume "\<forall>i st. c \<noteq> UpdateStudentStatus i st"
  then show "prefix (students s) (students (step s c))"
    by (rule step_students_same)
qed

theorem courses_and_student_fields_are_kept_witness:
  "prefix (courses campus0) (courses campus) \<and>
   students_kept (students campus0) (students campus) \<and>
   students campus \<noteq> students campus0 \<and>
   (\<forall>i st. RegisterForCourse 4 1 \<noteq> UpdateStudentStatus i st) \<and>
   prefix (students campus) (students (step campus (RegisterForCourse 4 1)))"
proof -
  have a: "\<forall>i st. RegisterForCourse 4 1 \<noteq> UpdateStudentStatus i st"
    by simp
  have b: "students campus \<noteq> students campus0"
    by code_simp
  note t = courses_and_student_fields_are_kept [where s = campus0 and cs = term_calls,
      folded campus_def]
  have w1: "prefix (courses campus0) (courses campus)"
    using t by blast
  have w2: "students_kept (students campus0) (students campus)"
    using t by blast
  have w3: "prefix (students campus) (students (step campus (RegisterForCourse 4 1)))"
    using a courses_and_student_fields_are_kept [where s = campus and c = "RegisterForCourse 4 1"]
    by blast
  show ?thesis
    using w1 w2 b a w3 by (intro conjI)
qed

text \<open>
  Claim C10. In every manager reached from a new one by calls of the methods, each
  registration names the identity of a student and of a course in the arrays, and each
  grade has a registration of its pair. The invariant holds in the new manager and every
  call preserves it.
\<close>

theorem referential_integrity_of_reachable_states:
  "(\<forall>r\<in>set (courseRegistrations (run new_ums cs)).
      (\<exists>x\<in>set (students (run new_ums cs)). student_id x = studentId r) \<and>
      (\<exists>c\<in>set (courses (run new_ums cs)). course_id c = courseId r)) \<and>
   (\<forall>g\<in>set (grades (run new_ums cs)). \<exists>r\<in>set (courseRegistrations (run new_ums cs)).
      studentId r = grade_studentId g \<and> courseId r = grade_courseId g) \<and>
   referential_integrity new_ums \<and>
   (referential_integrity s \<longrightarrow> referential_integrity (step s c)) \<and>
   (referential_integrity s \<longrightarrow> referential_integrity (run s cs))"
proof -
  have "referential_integrity (run new_ums cs)"
    by (rule run_integrity) (rule new_integrity)
  then show ?thesis
    by (simp add: referential_integrity_iff [symmetric] new_integrity step_integrity
        run_integrity)
qed

theorem referential_integrity_of_reachable_states_witness:
  "courseRegistrations campus \<noteq> [] \<and> grades campus \<noteq> [] \<and>
   referential_integrity campus \<and>
   referential_integrity (step campus (SetGrade 30 2 1 Excellent)) \<and>
   grades (step campus (SetGrade 30 2 1 Excellent)) \<noteq> grades campus \<and>
   \<not> referential_integrity (campus\<lparr>courses := []\<rparr>)"
proof -
  have c: "campus = run new_ums (enrolment_calls @ term_calls)"
    by (simp add: campus_def campus0_def run_append)
  have a: "courseRegistrations campus \<noteq> []" "grades campus \<noteq> []"
    "grades (step campus (SetGrade 30 2 1 Excellent)) \<noteq> grades campus"
    "\<not> referential_integrity (campus\<lparr>courses := []\<rparr>)"
    by code_simp+
  note t = referential_integrity_of_reachable_states
    [where cs = "enrolment_calls @ term_calls" and s = campus
      and c = "SetGrade 30 2 1 Excellent", folded c]
  have w1: "\<forall>r\<in>set (courseRegistrations campus).
      (\<exists>x\<in>set (students campus). student_id x = studentId r) \<and>
      (\<exists>c\<in>set (courses campus). course_id c = courseId r)"
    using t by (elim conjE)
  have w2: "\<forall>g\<in>set (grades campus). \<exists>r\<in>set (courseRegistrations campus).
      studentId r = grade_studentId g \<and> courseId r = grade_courseId g"
    using t by (elim conjE)
  have w3: "referential_integrity campus"
    using w1 w2 by (simp only: referential_integrity_iff)
  have w4: "referential_integrity (step campus (SetGrade 30 2 1 Excellent))"
    using t w3 by blast
  show ?thesis
    using a w3 w4 by (intro conjI)
qed

end
